theory Spec2Isabelle
  imports Main "HOL-Library.Word"
begin

unbundle bit_operations_syntax

section \<open>The allocator of src/src/allocator.c\<close>

text \<open>
  The model follows allocator.c function by function. Integers have the widths of an
  LP64 platform (the one \<^verbatim>\<open>mmap\<close> and \<^verbatim>\<open>unistd.h\<close> point to): \<^verbatim>\<open>size_t\<close> and
  \<^verbatim>\<open>uintptr_t\<close> are 64-bit words, \<^verbatim>\<open>uint32_t\<close> is a 32-bit word, \<^verbatim>\<open>uint8_t\<close> an 8-bit
  word. A pointer is its address, \<^verbatim>\<open>NULL\<close> is 0, and pointer arithmetic is word
  arithmetic. Loop counters and array indices of type \<^verbatim>\<open>int\<close> stay far below any bound
  and are natural numbers.

  Memory is a store of headers: \<open>mem s a\<close> is the \<^verbatim>\<open>free_blk_t\<close> read at address \<open>a\<close> and
  \<open>bmem s a\<close> the \<^verbatim>\<open>bud_t\<close> read there. A write to one header changes no header at another
  address. The payload bytes of the callers are not part of the model.

  The address space of the process is part of the state: \<open>mapped s a\<close> says that the byte
  at address \<open>a\<close> lies in a mapping. An access to a byte outside every mapping ends the
  process with \<^verbatim>\<open>SIGSEGV\<close>. The model tests this where \<^verbatim>\<open>my_free\<close> dereferences the
  pointer that its caller passes. The pointers that the allocator keeps in its own
  variables and headers are addresses of headers that it has written inside an arena,
  and they are followed without the test.
\<close>

type_synonym addr = "64 word"
type_synonym size_t = "64 word"

definition HEAP_SIZE :: "64 word" where "HEAP_SIZE = 4096"
definition MIN_TAIL :: "64 word" where "MIN_TAIL = 32"
definition MAGIC_F :: "32 word" where "MAGIC_F = 0xFEEDFACE"
definition MAGIC_A :: "32 word" where "MAGIC_A = 0xDEADBEEF"
definition SKLVL :: nat where "SKLVL = 6"
definition MAXORD :: nat where "MAXORD = 13"

definition ALLOC_STRATEGY_FIRST :: int where "ALLOC_STRATEGY_FIRST = 1"
definition ALLOC_STRATEGY_NEXT :: int where "ALLOC_STRATEGY_NEXT = 2"
definition ALLOC_STRATEGY_BEST :: int where "ALLOC_STRATEGY_BEST = 3"
definition ALLOC_STRATEGY_WORST :: int where "ALLOC_STRATEGY_WORST = 4"
definition ALLOC_STRATEGY_BUDDY :: int where "ALLOC_STRATEGY_BUDDY = 5"

text \<open>\<^verbatim>\<open>struct free_blk\<close>: the header of a block of the main arena.\<close>

record free_blk =
  sz :: size_t
  anext :: addr
  aprev :: addr
  snext :: "nat \<Rightarrow> addr"
  lvl :: nat
  magic :: "32 word"
  is_free :: "8 word"

text \<open>\<^verbatim>\<open>struct bud\<close>: the header of a block of the buddy arena.\<close>

record bud =
  bud_sz :: size_t
  bud_next :: addr
  bud_prev :: addr
  bud_magic :: "32 word"
  bud_order :: "8 word"
  bud_is_free :: "8 word"

text \<open>
  \<^verbatim>\<open>HDRSZ = sizeof(free_blk_t)\<close> and \<^verbatim>\<open>BUDHDR = sizeof(bud_t)\<close> with the LP64 layout:
  8 + 8 + 8 + 6 * 8 + 4 + 4 + 1 bytes padded to 88, and 8 + 8 + 8 + 4 + 1 + 1 bytes
  padded to 32.
\<close>

definition HDRSZ :: "64 word" where "HDRSZ = 88"
definition BUDHDR :: "64 word" where "BUDHDR = 32"

text \<open>The static variables of the file, the two header stores and the address space.\<close>

record state =
  heap0 :: addr
  heap0_end :: addr
  heap0_inited :: bool
  alist_head :: addr
  rover :: addr
  current_strategy :: int
  sidx_head :: "nat \<Rightarrow> addr"
  b_arena :: addr
  b_inited :: bool
  bfl :: "nat \<Rightarrow> addr"
  prng_state :: "32 word"
  mem :: "addr \<Rightarrow> free_blk"
  bmem :: "addr \<Rightarrow> bud"
  mapped :: "addr \<Rightarrow> bool"

text \<open>
  What a call does: it returns a value, it ends the process through \<^verbatim>\<open>_exit(1)\<close>
  (\<^verbatim>\<open>mmap\<close> failed), it ends the process with \<^verbatim>\<open>SIGSEGV\<close> (an access to an unmapped
  byte), or one of its pointer-chasing loops never ends.
\<close>

datatype 'a outcome = Diverges | Exits | Faults | Returns 'a

definition zero_blk :: free_blk where
  "zero_blk = \<lparr>sz = 0, anext = 0, aprev = 0, snext = (\<lambda>_. 0), lvl = 0, magic = 0, is_free = 0\<rparr>"

definition zero_bud :: bud where
  "zero_bud = \<lparr>bud_sz = 0, bud_next = 0, bud_prev = 0, bud_magic = 0, bud_order = 0,
     bud_is_free = 0\<rparr>"

text \<open>
  The process before its first call: the static initialisers, and memory that reads as
  zero (what an anonymous mapping delivers). Of the address space only the mappings of
  the allocator are recorded, so nothing is mapped yet.
\<close>

definition init_state :: state where
  "init_state = \<lparr>heap0 = 0, heap0_end = 0, heap0_inited = False, alist_head = 0, rover = 0,
     current_strategy = 0, sidx_head = (\<lambda>_. 0), b_arena = 0, b_inited = False,
     bfl = (\<lambda>_. 0), prng_state = 0x9E3779B9, mem = (\<lambda>_. zero_blk),
     bmem = (\<lambda>_. zero_bud), mapped = (\<lambda>_. False)\<rparr>"

text \<open>
  \<^verbatim>\<open>mmap(NULL, n, ...)\<close> that answers \<open>p\<close>: the \<open>n\<close> bytes from \<open>p\<close> on join the address
  space.
\<close>

definition map_pages :: "addr \<Rightarrow> 64 word \<Rightarrow> (addr \<Rightarrow> bool) \<Rightarrow> addr \<Rightarrow> bool" where
  "map_pages p n M = (\<lambda>a. M a \<or> a - p < n)"

text \<open>
  An object of \<open>n\<close> bytes at address \<open>a\<close> can be accessed. Mappings are made of pages of
  4096 bytes, so an object smaller than a page is mapped when its first and its last
  byte are.
\<close>

definition mapped_range :: "state \<Rightarrow> addr \<Rightarrow> 64 word \<Rightarrow> bool" where
  "mapped_range s a n = (mapped s a \<and> mapped s (a + (n - 1)))"

text \<open>
  \<^verbatim>\<open>offsetof(free_blk_t, magic)\<close> and \<^verbatim>\<open>offsetof(bud_t, magic)\<close> in the LP64 layout: the
  magic follows 8 + 8 + 8 + 6 * 8 + 4 bytes in the one header and 8 + 8 + 8 bytes in
  the other.
\<close>

definition MAGIC_OFF :: "64 word" where "MAGIC_OFF = 76"
definition BUD_MAGIC_OFF :: "64 word" where "BUD_MAGIC_OFF = 24"

subsection \<open>Writing one field of a header\<close>

definition set_sz :: "addr \<Rightarrow> size_t \<Rightarrow> state \<Rightarrow> state" where
  "set_sz a v s = s\<lparr>mem := (mem s)(a := (mem s a)\<lparr>sz := v\<rparr>)\<rparr>"

definition set_anext :: "addr \<Rightarrow> addr \<Rightarrow> state \<Rightarrow> state" where
  "set_anext a v s = s\<lparr>mem := (mem s)(a := (mem s a)\<lparr>anext := v\<rparr>)\<rparr>"

definition set_aprev :: "addr \<Rightarrow> addr \<Rightarrow> state \<Rightarrow> state" where
  "set_aprev a v s = s\<lparr>mem := (mem s)(a := (mem s a)\<lparr>aprev := v\<rparr>)\<rparr>"

definition set_snext :: "addr \<Rightarrow> nat \<Rightarrow> addr \<Rightarrow> state \<Rightarrow> state" where
  "set_snext a i v s =
     s\<lparr>mem := (mem s)(a := (mem s a)\<lparr>snext := (snext (mem s a))(i := v)\<rparr>)\<rparr>"

definition set_lvl :: "addr \<Rightarrow> nat \<Rightarrow> state \<Rightarrow> state" where
  "set_lvl a v s = s\<lparr>mem := (mem s)(a := (mem s a)\<lparr>lvl := v\<rparr>)\<rparr>"

definition set_magic :: "addr \<Rightarrow> 32 word \<Rightarrow> state \<Rightarrow> state" where
  "set_magic a v s = s\<lparr>mem := (mem s)(a := (mem s a)\<lparr>magic := v\<rparr>)\<rparr>"

definition set_is_free :: "addr \<Rightarrow> 8 word \<Rightarrow> state \<Rightarrow> state" where
  "set_is_free a v s = s\<lparr>mem := (mem s)(a := (mem s a)\<lparr>is_free := v\<rparr>)\<rparr>"

definition set_head :: "nat \<Rightarrow> addr \<Rightarrow> state \<Rightarrow> state" where
  "set_head i v s = s\<lparr>sidx_head := (sidx_head s)(i := v)\<rparr>"

subsection \<open>The level generator\<close>

text \<open>\<^verbatim>\<open>xr\<close>: one step of the 32-bit xorshift; it returns the new \<^verbatim>\<open>prng_state\<close>.\<close>

definition xr :: "state \<Rightarrow> 32 word \<times> state" where
  "xr s =
     (let x0 = prng_state s;
          x1 = x0 XOR push_bit 13 x0;
          x2 = x1 XOR drop_bit 17 x1;
          x3 = x2 XOR push_bit 5 x2;
          s' = s\<lparr>prng_state := (if x3 \<noteq> 0 then x3 else 0xA5A5A5A5)\<rparr>
      in (prng_state s', s'))"

text \<open>
  \<^verbatim>\<open>rand_lvl\<close>: \<^verbatim>\<open>while (h < SKLVL && (xr() & 1U)) h++\<close>, with \<^verbatim>\<open>xr\<close> called only
  while \<open>h < SKLVL\<close>.
\<close>

function rand_lvl_loop :: "nat \<Rightarrow> state \<Rightarrow> nat \<times> state" where
  "rand_lvl_loop h s =
     (if h < SKLVL
      then (if fst (xr s) AND 1 \<noteq> 0 then rand_lvl_loop (h + 1) (snd (xr s))
            else (h, snd (xr s)))
      else (h, s))"
  by pat_completeness auto
termination
  by (relation "measure (\<lambda>(h, s). SKLVL - h)") auto

declare rand_lvl_loop.simps [simp del]

definition rand_lvl :: "state \<Rightarrow> nat \<times> state" where
  "rand_lvl s = rand_lvl_loop 1 s"

subsection \<open>Comparing and linking blocks\<close>

definition cmp_size_addr :: "(addr \<Rightarrow> free_blk) \<Rightarrow> addr \<Rightarrow> addr \<Rightarrow> int" where
  "cmp_size_addr m a b =
     (if sz (m a) < sz (m b) then - 1
      else if sz (m a) > sz (m b) then 1
      else if a < b then - 1 else if a > b then 1 else 0)"

definition adjacent :: "(addr \<Rightarrow> free_blk) \<Rightarrow> addr \<Rightarrow> addr \<Rightarrow> bool" where
  "adjacent m a b = (a + HDRSZ + sz (m a) = b)"

text \<open>\<^verbatim>\<open>alu\<close>: unlink \<open>n\<close> from the address list.\<close>

definition alu :: "addr \<Rightarrow> state \<Rightarrow> state" where
  "alu n s =
     (let s1 = (if aprev (mem s n) \<noteq> 0 then set_anext (aprev (mem s n)) (anext (mem s n)) s
                else s\<lparr>alist_head := anext (mem s n)\<rparr>);
          s2 = (if anext (mem s1 n) \<noteq> 0
                then set_aprev (anext (mem s1 n)) (aprev (mem s1 n)) s1 else s1)
      in set_aprev n 0 (set_anext n 0 s2))"

text \<open>\<^verbatim>\<open>alb\<close>: link \<open>n\<close> between \<open>prev\<close> and \<open>nxt\<close>.\<close>

definition alb :: "addr \<Rightarrow> addr \<Rightarrow> addr \<Rightarrow> state \<Rightarrow> state" where
  "alb prev nxt n s =
     (let s1 = set_anext n nxt (set_aprev n prev s);
          s2 = (if prev \<noteq> 0 then set_anext prev n s1 else s1\<lparr>alist_head := n\<rparr>)
      in if nxt \<noteq> 0 then set_aprev nxt n s2 else s2)"

subsection \<open>The size index\<close>

text \<open>
  The four searches of the index (in \<^verbatim>\<open>sidx_insert\<close>, \<^verbatim>\<open>sidx_remove_exact\<close>,
  \<^verbatim>\<open>sidx_ge\<close> and \<^verbatim>\<open>sidx_max\<close>) are the same two nested loops and differ in the guard
  \<open>c\<close> of the inner one only: \<^verbatim>\<open>while (p && c(p)){ cur=p; p=p->snext[i]; }\<close>. The
  inner loop follows pointers of the store and need not end; \<open>None\<close> is a run that does
  not end.
\<close>

partial_function (option) sk_walk ::
  "(addr \<Rightarrow> bool) \<Rightarrow> (addr \<Rightarrow> free_blk) \<Rightarrow> nat \<Rightarrow> addr \<Rightarrow> addr \<Rightarrow> addr option" where
  "sk_walk c m i cur p =
     (if p \<noteq> 0 \<and> c p then sk_walk c m i p (snext (m p) i) else Some cur)"

declare sk_walk.simps [code]

text \<open>
  The outer loop \<^verbatim>\<open>for (int i=SKLVL-1;i>=0;i--)\<close> over the levels \<open>ls\<close>, with
  \<^verbatim>\<open>p = (cur ? cur->snext[i] : sidx.head[i])\<close> and \<^verbatim>\<open>upd[i] = cur\<close>.
\<close>

primrec sk_levels ::
  "(addr \<Rightarrow> bool) \<Rightarrow> state \<Rightarrow> nat list \<Rightarrow> addr \<Rightarrow> (nat \<Rightarrow> addr) \<Rightarrow> (addr \<times> (nat \<Rightarrow> addr)) option"
  where
  "sk_levels c s [] cur upd = Some (cur, upd)"
| "sk_levels c s (i # ls) cur upd =
     (case sk_walk c (mem s) i cur (if cur \<noteq> 0 then snext (mem s cur) i else sidx_head s i) of
        None \<Rightarrow> None
      | Some cur' \<Rightarrow> sk_levels c s ls cur' (upd(i := cur')))"

definition sk_search :: "(addr \<Rightarrow> bool) \<Rightarrow> state \<Rightarrow> (addr \<times> (nat \<Rightarrow> addr)) option" where
  "sk_search c s = sk_levels c s (rev [0..<SKLVL]) 0 (\<lambda>_. 0)"

text \<open>One round of the second loop of \<^verbatim>\<open>sidx_insert\<close>: splice \<open>n\<close> in at level \<open>i\<close>.\<close>

definition insert_at :: "(nat \<Rightarrow> addr) \<Rightarrow> addr \<Rightarrow> nat \<Rightarrow> state \<Rightarrow> state" where
  "insert_at upd n i s =
     (let p = (if upd i \<noteq> 0 then snext (mem s (upd i)) i else sidx_head s i);
          s1 = set_snext n i p s
      in if upd i \<noteq> 0 then set_snext (upd i) i n s1 else set_head i n s1)"

definition sidx_insert :: "addr \<Rightarrow> state \<Rightarrow> state option" where
  "sidx_insert n s =
     (let (L, s0) = rand_lvl s;
          s1 = set_lvl n L s0
      in case sk_search (\<lambda>p. cmp_size_addr (mem s1) p n < 0) s1 of
           None \<Rightarrow> None
         | Some (cur, upd) \<Rightarrow>
             Some (fold (\<lambda>i. set_snext n i 0) [L..<SKLVL] (fold (insert_at upd n) [0..<L] s1)))"

text \<open>One round of the second loop of \<^verbatim>\<open>sidx_remove_exact\<close>.\<close>

definition remove_at :: "(nat \<Rightarrow> addr) \<Rightarrow> addr \<Rightarrow> nat \<Rightarrow> state \<Rightarrow> state" where
  "remove_at upd n i s =
     (let nx = (if upd i \<noteq> 0 then snext (mem s (upd i)) i else sidx_head s i)
      in if nx = n
         then (if upd i \<noteq> 0 then set_snext (upd i) i (snext (mem s n) i) s
               else set_head i (snext (mem s n) i) s)
         else s)"

definition sidx_remove_exact :: "addr \<Rightarrow> state \<Rightarrow> state option" where
  "sidx_remove_exact n s =
     (case sk_search (\<lambda>p. cmp_size_addr (mem s) p n < 0) s of
        None \<Rightarrow> None
      | Some (cur, upd) \<Rightarrow> Some (fold (remove_at upd n) [0..<SKLVL] s))"

definition sidx_ge :: "size_t \<Rightarrow> state \<Rightarrow> addr option" where
  "sidx_ge need s =
     (case sk_search (\<lambda>p. sz (mem s p) < need) s of
        None \<Rightarrow> None
      | Some (cur, upd) \<Rightarrow> Some (if cur \<noteq> 0 then snext (mem s cur) 0 else sidx_head s 0))"

definition sidx_max :: "state \<Rightarrow> addr option" where
  "sidx_max s =
     (case sk_search (\<lambda>p. True) s of None \<Rightarrow> None | Some (cur, upd) \<Rightarrow> Some cur)"

subsection \<open>Bootstrap, split and coalesce\<close>

text \<open>
  Every field of a header written at once, as \<^verbatim>\<open>heap_bootstrap\<close> and \<^verbatim>\<open>smt\<close> do for a
  new free block (\<^verbatim>\<open>snext[0..SKLVL-1] = NULL\<close>, \<^verbatim>\<open>lvl = 1\<close>, \<^verbatim>\<open>MAGIC_F\<close>).
\<close>

definition new_free_blk :: "addr \<Rightarrow> size_t \<Rightarrow> state \<Rightarrow> state" where
  "new_free_blk a n s =
     set_is_free a 1 (set_magic a MAGIC_F (set_lvl a 1
       (fold (\<lambda>i. set_snext a i 0) [0..<SKLVL]
         (set_aprev a 0 (set_anext a 0 (set_sz a n s))))))"

text \<open>
  \<^verbatim>\<open>heap_bootstrap\<close>; \<open>mm\<close> is what \<^verbatim>\<open>mmap\<close> answers if it is called, \<open>None\<close> for
  \<^verbatim>\<open>MAP_FAILED\<close>.
\<close>

definition heap_bootstrap :: "addr option \<Rightarrow> state \<Rightarrow> state outcome" where
  "heap_bootstrap mm s =
     (if heap0_inited s then Returns s
      else case mm of
        None \<Rightarrow> Exits
      | Some p \<Rightarrow>
          (let s1 = s\<lparr>heap0 := p, heap0_end := p + HEAP_SIZE,
                      mapped := map_pages p HEAP_SIZE (mapped s)\<rparr>;
               s2 = fold (\<lambda>i. set_head i 0) [0..<SKLVL] s1;
               s3 = new_free_blk p (HEAP_SIZE - HDRSZ) s2;
               s4 = s3\<lparr>alist_head := p\<rparr>
           in case sidx_insert p s4 of
                None \<Rightarrow> Diverges
              | Some s5 \<Rightarrow>
                  Returns (s5\<lparr>rover := p, prng_state := 0x9E3779B9, heap0_inited := True\<rparr>)))"

text \<open>\<^verbatim>\<open>smt\<close>: the remainder (or \<^verbatim>\<open>NULL\<close>) and the store after the split.\<close>

definition smt :: "addr \<Rightarrow> size_t \<Rightarrow> state \<Rightarrow> addr \<times> state" where
  "smt blk need s =
     (let total = HDRSZ + sz (mem s blk);
          needed = HDRSZ + need
      in if total \<ge> needed + HDRSZ + MIN_TAIL
         then (let rem = blk + needed
               in (rem, set_sz blk need (new_free_blk rem (total - needed - HDRSZ) s)))
         else (0, s))"

text \<open>\<^verbatim>\<open>cola\<close>: merge \<open>b\<close> with its neighbours of the address list; the merged block.\<close>

definition cola_prev :: "addr \<Rightarrow> addr \<Rightarrow> state \<Rightarrow> state" where
  "cola_prev p b s =
     (let s1 = set_anext p (anext (mem s b)) s;
          s2 = (if anext (mem s1 b) \<noteq> 0 then set_aprev (anext (mem s1 b)) p s1 else s1);
          s3 = set_sz p (sz (mem s2 p) + (HDRSZ + sz (mem s2 b))) s2
      in if rover s3 = b \<or> rover s3 = p then s3\<lparr>rover := p\<rparr> else s3)"

definition cola_next :: "addr \<Rightarrow> addr \<Rightarrow> state \<Rightarrow> state" where
  "cola_next b n s =
     (let nn = anext (mem s n);
          s1 = set_anext b nn s;
          s2 = (if nn \<noteq> 0 then set_aprev nn b s1 else s1);
          s3 = set_sz b (sz (mem s2 b) + (HDRSZ + sz (mem s2 n))) s2
      in if rover s3 = n \<or> rover s3 = b then s3\<lparr>rover := b\<rparr> else s3)"

definition cola :: "addr \<Rightarrow> state \<Rightarrow> (addr \<times> state) option" where
  "cola b s =
     (let p = aprev (mem s b);
          n = anext (mem s b);
          merge_prev = (p \<noteq> 0 \<and> adjacent (mem s) p b);
          merge_next = (n \<noteq> 0 \<and> adjacent (mem s) b n);
          finish = (\<lambda>(b', t). (b', if alist_head t = 0 then t\<lparr>rover := 0\<rparr> else t))
      in if \<not> merge_prev \<and> \<not> merge_next then Some (finish (b, s))
         else case (if merge_prev then sidx_remove_exact p s else Some s) of
           None \<Rightarrow> None
         | Some s1 \<Rightarrow>
         (case sidx_remove_exact b s1 of
           None \<Rightarrow> None
         | Some s2 \<Rightarrow>
         (case (if merge_next then sidx_remove_exact n s2 else Some s2) of
           None \<Rightarrow> None
         | Some s3 \<Rightarrow>
             (let s4 = (if merge_prev then cola_prev p b s3 else s3);
                  b' = (if merge_prev then p else b);
                  s5 = (if merge_next then cola_next b' n s4 else s4)
              in case sidx_insert b' s5 of
                   None \<Rightarrow> None
                 | Some s6 \<Rightarrow> Some (finish (b', s6))))))"

subsection \<open>The four strategies of the main arena\<close>

text \<open>
  The scan of \<^verbatim>\<open>malloc_first_fit\<close>: the first block of the address list, from \<open>cur\<close> on,
  with \<^verbatim>\<open>cur->sz >= size\<close>, or \<^verbatim>\<open>NULL\<close> at the end of the list. The body that the source
  runs inside the loop for that block follows the scan in the model.
\<close>

partial_function (option) ff_scan :: "(addr \<Rightarrow> free_blk) \<Rightarrow> size_t \<Rightarrow> addr \<Rightarrow> addr option" where
  "ff_scan m size0 cur =
     (if cur = 0 then Some 0
      else if sz (m cur) \<ge> size0 then Some cur
      else ff_scan m size0 (anext (m cur)))"

declare ff_scan.simps [code]

definition malloc_first_fit :: "addr option \<Rightarrow> size_t \<Rightarrow> state \<Rightarrow> (addr \<times> state) outcome" where
  "malloc_first_fit mm size0 s =
     (if size0 = 0 then Returns (0, s)
      else case (if \<not> heap0_inited s then heap_bootstrap mm s else Returns s) of
        Diverges \<Rightarrow> Diverges
      | Exits \<Rightarrow> Exits
      | Faults \<Rightarrow> Faults
      | Returns s0 \<Rightarrow>
          (let s1 = s0\<lparr>current_strategy := ALLOC_STRATEGY_FIRST\<rparr>
           in case ff_scan (mem s1) size0 (alist_head s1) of
                None \<Rightarrow> Diverges
              | Some cur \<Rightarrow>
                  if cur = 0 then Returns (0, s1)
                  else
                    (let prev = aprev (mem s1 cur);
                         nxt = anext (mem s1 cur)
                     in case sidx_remove_exact cur (alu cur s1) of
                          None \<Rightarrow> Diverges
                        | Some s2 \<Rightarrow>
                            (let (rem, s3) = smt cur size0 s2
                             in case (if rem \<noteq> 0
                                      then (case sidx_insert rem (alb prev nxt rem s3) of
                                              None \<Rightarrow> None
                                            | Some s4 \<Rightarrow> Some (s4\<lparr>rover := rem\<rparr>))
                                      else Some (s3\<lparr>rover :=
                                             (if nxt \<noteq> 0 then nxt else alist_head s3)\<rparr>)) of
                                  None \<Rightarrow> Diverges
                                | Some s5 \<Rightarrow>
                                    Returns (cur + HDRSZ,
                                      set_magic cur MAGIC_A (set_is_free cur 0 s5))))))"

text \<open>
  The scan of \<^verbatim>\<open>malloc_next_fit\<close>, a \<^verbatim>\<open>do ... while (cur && cur != start)\<close> with
  \<^verbatim>\<open>cur = cur->anext ? cur->anext : alist_head\<close>: the block it stops at, or \<^verbatim>\<open>NULL\<close>
  when the loop is left at its end.
\<close>

partial_function (option) nf_scan ::
  "(addr \<Rightarrow> free_blk) \<Rightarrow> addr \<Rightarrow> size_t \<Rightarrow> addr \<Rightarrow> addr \<Rightarrow> addr option" where
  "nf_scan m head size0 start cur =
     (if sz (m cur) \<ge> size0 then Some cur
      else (let cur' = (if anext (m cur) \<noteq> 0 then anext (m cur) else head)
            in if cur' \<noteq> 0 \<and> cur' \<noteq> start then nf_scan m head size0 start cur' else Some 0))"

declare nf_scan.simps [code]

definition malloc_next_fit :: "addr option \<Rightarrow> size_t \<Rightarrow> state \<Rightarrow> (addr \<times> state) outcome" where
  "malloc_next_fit mm size0 s =
     (if size0 = 0 then Returns (0, s)
      else case (if \<not> heap0_inited s then heap_bootstrap mm s else Returns s) of
        Diverges \<Rightarrow> Diverges
      | Exits \<Rightarrow> Exits
      | Faults \<Rightarrow> Faults
      | Returns s0 \<Rightarrow>
          (let s1 = s0\<lparr>current_strategy := ALLOC_STRATEGY_NEXT\<rparr>
           in if alist_head s1 = 0 then Returns (0, s1\<lparr>rover := 0\<rparr>)
              else
                (let s2 = (if rover s1 = 0 then s1\<lparr>rover := alist_head s1\<rparr> else s1);
                     start = rover s2
                 in case nf_scan (mem s2) (alist_head s2) size0 start start of
                      None \<Rightarrow> Diverges
                    | Some cur \<Rightarrow>
                        if cur = 0
                        then Returns (0, if alist_head s2 = 0 then s2\<lparr>rover := 0\<rparr> else s2)
                        else
                          (let prev = aprev (mem s2 cur);
                               nxt = anext (mem s2 cur)
                           in case sidx_remove_exact cur (alu cur s2) of
                                None \<Rightarrow> Diverges
                              | Some s3 \<Rightarrow>
                                  (let (rem, s4) = smt cur size0 s3
                                   in case (if rem \<noteq> 0
                                            then (case sidx_insert rem (alb prev nxt rem s4) of
                                                    None \<Rightarrow> None
                                                  | Some s5 \<Rightarrow> Some (s5\<lparr>rover := rem\<rparr>))
                                            else Some (s4\<lparr>rover :=
                                                   (if alist_head s4 \<noteq> 0
                                                    then (if nxt \<noteq> 0 then nxt else alist_head s4)
                                                    else 0)\<rparr>)) of
                                        None \<Rightarrow> Diverges
                                      | Some s6 \<Rightarrow>
                                          (let s7 = (if alist_head s6 = 0 then s6\<lparr>rover := 0\<rparr>
                                                     else s6)
                                           in Returns (cur + HDRSZ,
                                                set_magic cur MAGIC_A
                                                  (set_is_free cur 0 s7))))))))"

definition malloc_best_fit :: "addr option \<Rightarrow> size_t \<Rightarrow> state \<Rightarrow> (addr \<times> state) outcome" where
  "malloc_best_fit mm size0 s =
     (if size0 = 0 then Returns (0, s)
      else case (if \<not> heap0_inited s then heap_bootstrap mm s else Returns s) of
        Diverges \<Rightarrow> Diverges
      | Exits \<Rightarrow> Exits
      | Faults \<Rightarrow> Faults
      | Returns s0 \<Rightarrow>
          (let s1 = s0\<lparr>current_strategy := ALLOC_STRATEGY_BEST\<rparr>
           in case sidx_ge size0 s1 of
                None \<Rightarrow> Diverges
              | Some best \<Rightarrow>
                  if best = 0 then Returns (0, s1)
                  else
                    (let prev = aprev (mem s1 best);
                         nxt = anext (mem s1 best)
                     in case sidx_remove_exact best (alu best s1) of
                          None \<Rightarrow> Diverges
                        | Some s2 \<Rightarrow>
                            (let (rem, s3) = smt best size0 s2
                             in case (if rem \<noteq> 0 then sidx_insert rem (alb prev nxt rem s3)
                                      else Some s3) of
                                  None \<Rightarrow> Diverges
                                | Some s4 \<Rightarrow>
                                    Returns (best + HDRSZ,
                                      set_magic best MAGIC_A (set_is_free best 0 s4))))))"

definition malloc_worst_fit :: "addr option \<Rightarrow> size_t \<Rightarrow> state \<Rightarrow> (addr \<times> state) outcome" where
  "malloc_worst_fit mm size0 s =
     (if size0 = 0 then Returns (0, s)
      else case (if \<not> heap0_inited s then heap_bootstrap mm s else Returns s) of
        Diverges \<Rightarrow> Diverges
      | Exits \<Rightarrow> Exits
      | Faults \<Rightarrow> Faults
      | Returns s0 \<Rightarrow>
          (let s1 = s0\<lparr>current_strategy := ALLOC_STRATEGY_WORST\<rparr>
           in case sidx_max s1 of
                None \<Rightarrow> Diverges
              | Some w \<Rightarrow>
                  if w = 0 \<or> sz (mem s1 w) < size0 then Returns (0, s1)
                  else
                    (let prev = aprev (mem s1 w);
                         nxt = anext (mem s1 w)
                     in case sidx_remove_exact w (alu w s1) of
                          None \<Rightarrow> Diverges
                        | Some s2 \<Rightarrow>
                            (let (rem, s3) = smt w size0 s2
                             in case (if rem \<noteq> 0 then sidx_insert rem (alb prev nxt rem s3)
                                      else Some s3) of
                                  None \<Rightarrow> Diverges
                                | Some s4 \<Rightarrow>
                                    Returns (w + HDRSZ,
                                      set_magic w MAGIC_A (set_is_free w 0 s4))))))"

subsection \<open>The buddy arena\<close>

definition set_bud_sz :: "addr \<Rightarrow> size_t \<Rightarrow> state \<Rightarrow> state" where
  "set_bud_sz a v s = s\<lparr>bmem := (bmem s)(a := (bmem s a)\<lparr>bud_sz := v\<rparr>)\<rparr>"

definition set_bud_next :: "addr \<Rightarrow> addr \<Rightarrow> state \<Rightarrow> state" where
  "set_bud_next a v s = s\<lparr>bmem := (bmem s)(a := (bmem s a)\<lparr>bud_next := v\<rparr>)\<rparr>"

definition set_bud_prev :: "addr \<Rightarrow> addr \<Rightarrow> state \<Rightarrow> state" where
  "set_bud_prev a v s = s\<lparr>bmem := (bmem s)(a := (bmem s a)\<lparr>bud_prev := v\<rparr>)\<rparr>"

definition set_bud_magic :: "addr \<Rightarrow> 32 word \<Rightarrow> state \<Rightarrow> state" where
  "set_bud_magic a v s = s\<lparr>bmem := (bmem s)(a := (bmem s a)\<lparr>bud_magic := v\<rparr>)\<rparr>"

definition set_bud_order :: "addr \<Rightarrow> 8 word \<Rightarrow> state \<Rightarrow> state" where
  "set_bud_order a v s = s\<lparr>bmem := (bmem s)(a := (bmem s a)\<lparr>bud_order := v\<rparr>)\<rparr>"

definition set_bud_is_free :: "addr \<Rightarrow> 8 word \<Rightarrow> state \<Rightarrow> state" where
  "set_bud_is_free a v s = s\<lparr>bmem := (bmem s)(a := (bmem s a)\<lparr>bud_is_free := v\<rparr>)\<rparr>"

definition set_bfl :: "nat \<Rightarrow> addr \<Rightarrow> state \<Rightarrow> state" where
  "set_bfl k v s = s\<lparr>bfl := (bfl s)(k := v)\<rparr>"

text \<open>\<^verbatim>\<open>b_init\<close>; \<open>mm\<close> is the answer of \<^verbatim>\<open>mmap\<close>, as in \<open>heap_bootstrap\<close>.\<close>

definition b_init :: "addr option \<Rightarrow> state \<Rightarrow> state outcome" where
  "b_init mm s =
     (if b_inited s then Returns s
      else case mm of
        None \<Rightarrow> Exits
      | Some p \<Rightarrow>
          (let s1 = s\<lparr>b_arena := p, mapped := map_pages p HEAP_SIZE (mapped s)\<rparr>;
               s2 = fold (\<lambda>i. set_bfl i 0) [0..<MAXORD] s1;
               s3 = set_bud_sz p (push_bit (MAXORD - 1) 1) s2;
               s4 = set_bud_order p (of_nat (MAXORD - 1)) s3;
               s5 = set_bud_is_free p 1 (set_bud_magic p MAGIC_F s4);
               s6 = set_bud_next p 0 (set_bud_prev p 0 s5);
               s7 = set_bfl (unat (bud_order (bmem s6 p))) p s6
           in Returns (s7\<lparr>b_inited := True\<rparr>)))"

text \<open>\<^verbatim>\<open>bgb\<close>, first loop: \<^verbatim>\<open>while (k < MAXORD && !bfl[k]) k++\<close>.\<close>

function bgb_find :: "(nat \<Rightarrow> addr) \<Rightarrow> nat \<Rightarrow> nat" where
  "bgb_find fl k = (if k < MAXORD \<and> fl k = 0 then bgb_find fl (k + 1) else k)"
  by pat_completeness auto
termination
  by (relation "measure (\<lambda>(fl, k). MAXORD - k)") auto

declare bgb_find.simps [simp del]

text \<open>
  \<^verbatim>\<open>bgb\<close>, second loop: \<^verbatim>\<open>while (k > order)\<close> halves the block \<open>b\<close> and puts the right
  half on the list of order \<open>k - 1\<close>. \<open>bgb_halve\<close> is the body of the loop after
  \<^verbatim>\<open>k--\<close>. For \<open>k < 5\<close> the two halves are shorter than a header (\<open>2 ^ k < BUDHDR\<close>)
  and their headers overlap in memory; the header store keeps them apart, so the model
  describes the code for the orders from 5 on. \<^verbatim>\<open>malloc_buddy_alloc\<close> asks for a lower
  order only when \<^verbatim>\<open>size + BUDHDR\<close> has wrapped around to less than 17.
\<close>

definition bgb_halve :: "nat \<Rightarrow> addr \<Rightarrow> state \<Rightarrow> state" where
  "bgb_halve k b s =
     (let half = push_bit k (1 :: 64 word);
          r = b + half;
          s1 = set_bud_sz b half (set_bud_sz r half s);
          s2 = set_bud_order b (of_nat k) (set_bud_order r (of_nat k) s1);
          s3 = set_bud_magic b MAGIC_F (set_bud_magic r MAGIC_F s2);
          s4 = set_bud_is_free b 1 (set_bud_is_free r 1 s3);
          s5 = set_bud_prev r 0 (set_bud_next r (bfl s4 k) s4);
          s6 = (if bfl s5 k \<noteq> 0 then set_bud_prev (bfl s5 k) r s5 else s5)
      in set_bfl k r s6)"

function bgb_split :: "nat \<Rightarrow> nat \<Rightarrow> addr \<Rightarrow> state \<Rightarrow> state" where
  "bgb_split ord k b s =
     (if k > ord then bgb_split ord (k - 1) b (bgb_halve (k - 1) b s) else s)"
  by pat_completeness auto
termination
  by (relation "measure (\<lambda>(ord, k, b, s). k)") auto

declare bgb_split.simps [simp del]

definition bgb :: "nat \<Rightarrow> state \<Rightarrow> addr \<times> state" where
  "bgb ord s =
     (let k = bgb_find (bfl s) ord
      in if k \<ge> MAXORD then (0, s)
         else
           (let b = bfl s k;
                s1 = set_bfl k (bud_next (bmem s b)) s;
                s2 = (if bud_next (bmem s1 b) \<noteq> 0
                      then set_bud_prev (bud_next (bmem s1 b)) 0 s1 else s1);
                s3 = set_bud_next b 0 (set_bud_prev b 0 s2);
                s4 = bgb_split ord k b s3
            in (b, set_bud_magic b MAGIC_A (set_bud_is_free b 0 s4))))"

definition b_buddy :: "addr \<Rightarrow> state \<Rightarrow> addr" where
  "b_buddy b s =
     (let bsize = push_bit (unat (bud_order (bmem s b))) (1 :: 64 word);
          off = b - b_arena s;
          boff = off XOR bsize
      in if boff < HEAP_SIZE then b_arena s + boff else 0)"

text \<open>Push \<open>b\<close> on the free list of its order, as \<^verbatim>\<open>bfm\<close> does twice.\<close>

definition bfl_push :: "addr \<Rightarrow> state \<Rightarrow> state" where
  "bfl_push b s =
     (let s1 = set_bud_prev b 0 (set_bud_next b (bfl s (unat (bud_order (bmem s b)))) s);
          k = unat (bud_order (bmem s1 b));
          s2 = (if bfl s1 k \<noteq> 0 then set_bud_prev (bfl s1 k) b s1 else s1)
      in set_bfl (unat (bud_order (bmem s2 b))) b s2)"

text \<open>Take \<open>m\<close> off the free list of its order, as \<^verbatim>\<open>bfm\<close> does for both buddies.\<close>

definition bfl_unlink :: "addr \<Rightarrow> state \<Rightarrow> state" where
  "bfl_unlink m s =
     (let s1 = (if bud_prev (bmem s m) \<noteq> 0
                then set_bud_next (bud_prev (bmem s m)) (bud_next (bmem s m)) s
                else set_bfl (unat (bud_order (bmem s m))) (bud_next (bmem s m)) s)
      in if bud_next (bmem s1 m) \<noteq> 0
         then set_bud_prev (bud_next (bmem s1 m)) (bud_prev (bmem s1 m)) s1 else s1)"

text \<open>
  One round of the merging loop of \<^verbatim>\<open>bfm\<close>, for a free buddy \<open>m\<close> of \<open>b\<close> of the same
  order: both leave their list, and the lower one of the two goes on the list of the
  next order. The result is the merged block.
\<close>

definition bfm_merge :: "addr \<Rightarrow> addr \<Rightarrow> state \<Rightarrow> addr \<times> state" where
  "bfm_merge m b s =
     (let s1 = bfl_unlink b (bfl_unlink m s);
          b' = (if m < b then m else b);
          s2 = set_bud_order b' (bud_order (bmem s1 b') + 1) s1;
          s3 = set_bud_sz b' (push_bit 1 (bud_sz (bmem s2 b'))) s2;
          s4 = set_bud_prev b' 0 (set_bud_next b' 0 s3)
      in (b', bfl_push b' s4))"

text \<open>The merging loop of \<^verbatim>\<open>bfm\<close>.\<close>

partial_function (option) bfm_loop :: "addr \<Rightarrow> state \<Rightarrow> state option" where
  "bfm_loop b s =
     (if unat (bud_order (bmem s b)) < MAXORD - 1
      then (let m = b_buddy b s
            in if m = 0 \<or> bud_is_free (bmem s m) = 0
                  \<or> bud_order (bmem s m) \<noteq> bud_order (bmem s b)
               then Some s
               else bfm_loop (fst (bfm_merge m b s)) (snd (bfm_merge m b s)))
      else Some s)"

declare bfm_loop.simps [code]

definition bfm :: "addr \<Rightarrow> state \<Rightarrow> state option" where
  "bfm b s = bfm_loop b (bfl_push b (set_bud_magic b MAGIC_F (set_bud_is_free b 1 s)))"

text \<open>
  \<^verbatim>\<open>malloc_buddy_alloc\<close>, its loop
  \<^verbatim>\<open>while (blk < need && order < MAXORD){ blk <<= 1; order++; }\<close>: the final order.
\<close>

function buddy_order :: "size_t \<Rightarrow> size_t \<Rightarrow> nat \<Rightarrow> nat" where
  "buddy_order need blk ord =
     (if blk < need \<and> ord < MAXORD then buddy_order need (push_bit 1 blk) (ord + 1) else ord)"
  by pat_completeness auto
termination
  by (relation "measure (\<lambda>(need, blk, ord). MAXORD - ord)") auto

declare buddy_order.simps [simp del]

definition malloc_buddy_alloc :: "addr option \<Rightarrow> size_t \<Rightarrow> state \<Rightarrow> (addr \<times> state) outcome" where
  "malloc_buddy_alloc mm size0 s =
     (if size0 = 0 then Returns (0, s)
      else case (if \<not> b_inited s then b_init mm s else Returns s) of
        Diverges \<Rightarrow> Diverges
      | Exits \<Rightarrow> Exits
      | Faults \<Rightarrow> Faults
      | Returns s0 \<Rightarrow>
          (let s1 = s0\<lparr>current_strategy := ALLOC_STRATEGY_BUDDY\<rparr>;
               need = size0 + BUDHDR;
               ord = buddy_order need 1 0
           in if ord \<ge> MAXORD then Returns (0, s1)
              else (let (b, s2) = bgb ord s1
                    in if b = 0 then Returns (0, s2) else Returns (b + BUDHDR, s2))))"

subsection \<open>Free\<close>

text \<open>
  The walk of \<^verbatim>\<open>my_free\<close> to the place of \<open>blk\<close> in the address list:
  \<^verbatim>\<open>while (cur && (uintptr_t)cur < (uintptr_t)blk){ prv = cur; cur = cur->anext; }\<close>.
\<close>

partial_function (option) free_walk ::
  "(addr \<Rightarrow> free_blk) \<Rightarrow> addr \<Rightarrow> addr \<Rightarrow> addr \<Rightarrow> (addr \<times> addr) option" where
  "free_walk m blk prv cur =
     (if cur \<noteq> 0 \<and> cur < blk then free_walk m blk cur (anext (m cur)) else Some (prv, cur))"

declare free_walk.simps [code]

text \<open>
  \<^verbatim>\<open>my_free\<close>. The first access through the pointer of the caller is the read of
  \<^verbatim>\<open>b->magic\<close> (buddy arena) or of \<^verbatim>\<open>blk->magic\<close> (main arena), four bytes inside the
  header; when the magic is \<^verbatim>\<open>MAGIC_A\<close> the other fields of the header are written.
\<close>

definition my_free :: "addr \<Rightarrow> state \<Rightarrow> state outcome" where
  "my_free ptr s =
     (if ptr = 0 then Returns s
      else if b_inited s \<and> ptr \<ge> b_arena s \<and> ptr < b_arena s + HEAP_SIZE
      then (let b = ptr - BUDHDR
            in if \<not> mapped_range s (b + BUD_MAGIC_OFF) 4 then Faults
               else if bud_magic (bmem s b) \<noteq> MAGIC_A then Returns s
               else if \<not> mapped_range s b BUDHDR then Faults
               else (case bfm b s of None \<Rightarrow> Diverges | Some s' \<Rightarrow> Returns s'))
      else if \<not> heap0_inited s then Returns s
      else
        (let blk = ptr - HDRSZ
         in if \<not> mapped_range s (blk + MAGIC_OFF) 4 then Faults
            else if magic (mem s blk) \<noteq> MAGIC_A then Returns s
            else if \<not> mapped_range s blk HDRSZ then Faults
            else case (if alist_head s = 0
                       then Some (set_aprev blk 0 (set_anext blk 0 (s\<lparr>alist_head := blk\<rparr>)))
                       else (case free_walk (mem s) blk 0 (alist_head s) of
                               None \<Rightarrow> None
                             | Some (prv, cur) \<Rightarrow> Some (alb prv cur blk s))) of
              None \<Rightarrow> Diverges
            | Some s1 \<Rightarrow>
                (let s2 = set_magic blk MAGIC_F (set_is_free blk 1 s1);
                     s3 = set_lvl blk 1 (fold (\<lambda>i. set_snext blk i 0) [0..<SKLVL] s2)
                 in case sidx_insert blk s3 of
                      None \<Rightarrow> Diverges
                    | Some s4 \<Rightarrow>
                        (case cola blk s4 of
                           None \<Rightarrow> Diverges
                         | Some (b', s5) \<Rightarrow> Returns s5))))"

text \<open>\<^verbatim>\<open>allocator_current_strategy\<close>.\<close>

definition allocator_current_strategy :: "state \<Rightarrow> int" where
  "allocator_current_strategy s =
     (if current_strategy s \<ge> ALLOC_STRATEGY_FIRST \<and> current_strategy s \<le> ALLOC_STRATEGY_BUDDY
      then current_strategy s else ALLOC_STRATEGY_FIRST)"

section \<open>Notions of the specification\<close>

text \<open>
  The magic of the header that \<^verbatim>\<open>my_free\<close> recovers from a pointer: the buddy header
  when the pointer lies in the bootstrapped buddy arena, the main header otherwise.
\<close>

definition recovered_magic :: "addr \<Rightarrow> state \<Rightarrow> 32 word" where
  "recovered_magic ptr s =
     (if b_inited s \<and> ptr \<ge> b_arena s \<and> ptr < b_arena s + HEAP_SIZE
      then bud_magic (bmem s (ptr - BUDHDR)) else magic (mem s (ptr - HDRSZ)))"

text \<open>The four bytes of that magic lie in the address space.\<close>

definition recovered_readable :: "addr \<Rightarrow> state \<Rightarrow> bool" where
  "recovered_readable ptr s =
     (if b_inited s \<and> ptr \<ge> b_arena s \<and> ptr < b_arena s + HEAP_SIZE
      then mapped_range s (ptr - BUDHDR + BUD_MAGIC_OFF) 4
      else mapped_range s (ptr - HDRSZ + MAGIC_OFF) 4)"

text \<open>
  What the operations of the size index leave alone: every variable but the index heads
  and the generator, and in every header all fields but \<open>snext\<close> and \<open>lvl\<close>.
\<close>

definition idx_frame :: "state \<Rightarrow> state \<Rightarrow> bool" where
  "idx_frame s s' =
     (\<exists>m h x. s' = s\<lparr>mem := m, sidx_head := h, prng_state := x\<rparr> \<and>
        (\<forall>a. sz (m a) = sz (mem s a) \<and> anext (m a) = anext (mem s a) \<and>
             aprev (m a) = aprev (mem s a) \<and> magic (m a) = magic (mem s a) \<and>
             is_free (m a) = is_free (mem s a)))"

text \<open>The five allocation entries under one name, and the tag each one stands for.\<close>

datatype strategy = First | Next | Best | Worst | Buddy

fun alloc :: "strategy \<Rightarrow> addr option \<Rightarrow> size_t \<Rightarrow> state \<Rightarrow> (addr \<times> state) outcome" where
  "alloc First = malloc_first_fit"
| "alloc Next = malloc_next_fit"
| "alloc Best = malloc_best_fit"
| "alloc Worst = malloc_worst_fit"
| "alloc Buddy = malloc_buddy_alloc"

fun tag_of :: "strategy \<Rightarrow> int" where
  "tag_of First = ALLOC_STRATEGY_FIRST"
| "tag_of Next = ALLOC_STRATEGY_NEXT"
| "tag_of Best = ALLOC_STRATEGY_BEST"
| "tag_of Worst = ALLOC_STRATEGY_WORST"
| "tag_of Buddy = ALLOC_STRATEGY_BUDDY"

text \<open>
  What \<^verbatim>\<open>my_free\<close> leaves alone on its way through the main arena, and on its way through
  the buddy arena: which arenas are bootstrapped and where the buddy arena lies, and
  every magic but the one it stamps.
\<close>

definition magic_frame :: "state \<Rightarrow> state \<Rightarrow> bool" where
  "magic_frame s s' =
     (b_inited s' = b_inited s \<and> b_arena s' = b_arena s \<and> heap0_inited s' = heap0_inited s \<and>
      mapped s' = mapped s \<and>
      (\<forall>a. magic (mem s' a) = magic (mem s a)) \<and>
      (\<forall>a. bud_magic (bmem s' a) = bud_magic (bmem s a)))"

text \<open>
  The address list as a list of addresses: \<open>achain m p xs\<close> says that the \<^verbatim>\<open>anext\<close>
  pointers lead from \<open>p\<close> through the blocks \<open>xs\<close>, in this order, to \<^verbatim>\<open>NULL\<close>. With
  \<open>p = alist_head s\<close> the list \<open>xs\<close> is the address list of \<open>s\<close>. \<open>schain\<close> is the same
  for level \<open>i\<close> of the size index, from \<open>sidx_head s i\<close> along \<^verbatim>\<open>snext[i]\<close>.
\<close>

primrec achain :: "(addr \<Rightarrow> free_blk) \<Rightarrow> addr \<Rightarrow> addr list \<Rightarrow> bool" where
  "achain m p [] = (p = 0)"
| "achain m p (x # xs) = (p = x \<and> x \<noteq> 0 \<and> achain m (anext (m x)) xs)"

primrec schain :: "(addr \<Rightarrow> free_blk) \<Rightarrow> nat \<Rightarrow> addr \<Rightarrow> addr list \<Rightarrow> bool" where
  "schain m i p [] = (p = 0)"
| "schain m i p (x # xs) = (p = x \<and> x \<noteq> 0 \<and> schain m i (snext (m x) i) xs)"

text \<open>
  A caller: a sequence of calls of the public entries. \<open>Free k\<close> frees the handle that
  the \<open>k\<close>-th allocation of the sequence returned (counted from 0). \<open>hm\<close> and \<open>bm\<close> are
  the answers of \<^verbatim>\<open>mmap\<close> for the main and for the buddy arena. The result is the list of
  the handles returned and the final state.
\<close>

datatype call = Malloc strategy size_t | Free nat

fun run :: "addr option \<Rightarrow> addr option \<Rightarrow> call list \<Rightarrow> addr list \<Rightarrow> state
    \<Rightarrow> (addr list \<times> state) outcome" where
  "run hm bm [] hs s = Returns (hs, s)"
| "run hm bm (Malloc S n # cs) hs s =
     (case alloc S (if S = Buddy then bm else hm) n s of
        Diverges \<Rightarrow> Diverges
      | Exits \<Rightarrow> Exits
      | Faults \<Rightarrow> Faults
      | Returns r \<Rightarrow> run hm bm cs (hs @ [fst r]) (snd r))"
| "run hm bm (Free k # cs) hs s =
     (case my_free (hs ! k) s of
        Diverges \<Rightarrow> Diverges
      | Exits \<Rightarrow> Exits
      | Faults \<Rightarrow> Faults
      | Returns s' \<Rightarrow> run hm bm cs hs s')"

section \<open>Properties\<close>

lemmas setters = set_sz_def set_anext_def set_aprev_def set_snext_def set_lvl_def set_magic_def
  set_is_free_def set_head_def

lemmas bud_setters = set_bud_sz_def set_bud_next_def set_bud_prev_def set_bud_magic_def
  set_bud_order_def set_bud_is_free_def set_bfl_def

subsection \<open>Free before the bootstrap\<close>

text \<open>
  C10: \<^verbatim>\<open>my_free\<close> with a non-null pointer, before the main arena is bootstrapped and
  with the buddy arena not bootstrapped or not holding the pointer, returns with the
  state as it was. It does so in every address space \<open>M\<close>, also in one where no byte of
  the header behind the pointer is mapped and any access to it would end the process,
  and for every content \<open>m\<close>, \<open>bm\<close> of the header stores: the header is not dereferenced.
\<close>

theorem my_free_before_bootstrap:
  "ptr \<noteq> 0 \<Longrightarrow> \<not> heap0_inited s \<Longrightarrow>
   \<not> b_inited s \<or> \<not> (b_arena s \<le> ptr \<and> ptr < b_arena s + HEAP_SIZE) \<Longrightarrow>
   my_free ptr (s\<lparr>mapped := M, mem := m, bmem := bm\<rparr>)
     = Returns (s\<lparr>mapped := M, mem := m, bmem := bm\<rparr>)"
  by (auto simp add: my_free_def)

text \<open>
  The pointer 65624 in a process that has mapped nothing, with headers that all carry
  \<^verbatim>\<open>MAGIC_A\<close>: the call returns. Once \<^verbatim>\<open>heap0_inited\<close> is set, the same call reads the
  magic behind the pointer and ends with \<^verbatim>\<open>SIGSEGV\<close>.
\<close>

theorem my_free_before_bootstrap_witness:
  "(0x10058 :: addr) \<noteq> 0 \<and> \<not> heap0_inited init_state \<and> \<not> b_inited init_state \<and>
   \<not> recovered_readable 0x10058 init_state \<and>
   my_free 0x10058
     (init_state\<lparr>mapped := (\<lambda>_. False), mem := (\<lambda>_. zero_blk\<lparr>magic := MAGIC_A\<rparr>),
        bmem := (\<lambda>_. zero_bud)\<rparr>)
   = Returns
     (init_state\<lparr>mapped := (\<lambda>_. False), mem := (\<lambda>_. zero_blk\<lparr>magic := MAGIC_A\<rparr>),
        bmem := (\<lambda>_. zero_bud)\<rparr>) \<and>
   my_free 0x10058
     (init_state\<lparr>heap0_inited := True, mem := (\<lambda>_. zero_blk\<lparr>magic := MAGIC_A\<rparr>)\<rparr>)
   = Faults"
  using my_free_before_bootstrap
    [where ptr = "0x10058" and s = init_state and M = "\<lambda>_. False"
       and m = "\<lambda>_. zero_blk\<lparr>magic := MAGIC_A\<rparr>" and bm = "\<lambda>_. zero_bud"]
  by (simp add: init_state_def my_free_def mapped_range_def recovered_readable_def)

subsection \<open>The size index changes its own links only\<close>

lemma idx_frameI:
  "s' = s\<lparr>mem := m, sidx_head := h, prng_state := x\<rparr> \<Longrightarrow>
   (\<And>a. sz (m a) = sz (mem s a) \<and> anext (m a) = anext (mem s a) \<and>
        aprev (m a) = aprev (mem s a) \<and> magic (m a) = magic (mem s a) \<and>
        is_free (m a) = is_free (mem s a)) \<Longrightarrow> idx_frame s s'"
  unfolding idx_frame_def by blast

lemma idx_frame_refl: "idx_frame s s"
  by (rule idx_frameI [where m = "mem s" and h = "sidx_head s" and x = "prng_state s"]) simp_all

lemma idx_frame_trans:
  assumes "idx_frame s t" "idx_frame t u"
  shows "idx_frame s u"
proof -
  from assms(1) obtain m h x where
    t: "t = s\<lparr>mem := m, sidx_head := h, prng_state := x\<rparr>" and
    m: "\<And>a. sz (m a) = sz (mem s a) \<and> anext (m a) = anext (mem s a) \<and>
             aprev (m a) = aprev (mem s a) \<and> magic (m a) = magic (mem s a) \<and>
             is_free (m a) = is_free (mem s a)"
    unfolding idx_frame_def by blast
  from assms(2) obtain m' h' x' where
    u: "u = t\<lparr>mem := m', sidx_head := h', prng_state := x'\<rparr>" and
    m': "\<And>a. sz (m' a) = sz (mem t a) \<and> anext (m' a) = anext (mem t a) \<and>
             aprev (m' a) = aprev (mem t a) \<and> magic (m' a) = magic (mem t a) \<and>
             is_free (m' a) = is_free (mem t a)"
    unfolding idx_frame_def by blast
  show ?thesis
  proof (rule idx_frameI [where m = m' and h = h' and x = x'])
    show "u = s\<lparr>mem := m', sidx_head := h', prng_state := x'\<rparr>" by (simp add: u t)
    show "sz (m' a) = sz (mem s a) \<and> anext (m' a) = anext (mem s a) \<and>
        aprev (m' a) = aprev (mem s a) \<and> magic (m' a) = magic (mem s a) \<and>
        is_free (m' a) = is_free (mem s a)" for a
      using m [of a] m' [of a] by (simp add: t)
  qed
qed

lemma idx_frame_fields:
  assumes "idx_frame s s'"
  shows "sz (mem s' a) = sz (mem s a)" "anext (mem s' a) = anext (mem s a)"
    "aprev (mem s' a) = aprev (mem s a)" "magic (mem s' a) = magic (mem s a)"
    "is_free (mem s' a) = is_free (mem s a)"
    "alist_head s' = alist_head s" "rover s' = rover s"
    "current_strategy s' = current_strategy s" "heap0 s' = heap0 s"
    "heap0_end s' = heap0_end s" "heap0_inited s' = heap0_inited s"
    "b_arena s' = b_arena s" "b_inited s' = b_inited s" "bfl s' = bfl s" "bmem s' = bmem s"
    "mapped s' = mapped s"
  using assms unfolding idx_frame_def by auto

lemma idx_frame_set_snext: "idx_frame s (set_snext a i v s)"
  by (rule idx_frameI [where h = "sidx_head s" and x = "prng_state s"
        and m = "(mem s)(a := (mem s a)\<lparr>snext := (snext (mem s a))(i := v)\<rparr>)"])
     (simp_all add: set_snext_def)

lemma idx_frame_set_lvl: "idx_frame s (set_lvl a v s)"
  by (rule idx_frameI [where h = "sidx_head s" and x = "prng_state s"
        and m = "(mem s)(a := (mem s a)\<lparr>lvl := v\<rparr>)"])
     (simp_all add: set_lvl_def)

lemma idx_frame_set_head: "idx_frame s (set_head i v s)"
  by (rule idx_frameI [where h = "(sidx_head s)(i := v)" and x = "prng_state s"
        and m = "mem s"])
     (simp_all add: set_head_def)

lemma idx_frame_prng: "idx_frame s (s\<lparr>prng_state := x\<rparr>)"
  by (rule idx_frameI [where h = "sidx_head s" and x = x and m = "mem s"]) simp_all

lemma idx_frame_fold:
  "(\<And>x t. idx_frame t (f x t)) \<Longrightarrow> idx_frame s (fold f xs s)"
proof (induction xs arbitrary: s)
  case Nil
  show ?case by (simp add: idx_frame_refl)
next
  case (Cons x xs)
  have "idx_frame s (f x s)" by (rule Cons.prems)
  moreover have "idx_frame (f x s) (fold f xs (f x s))" by (rule Cons.IH) (rule Cons.prems)
  ultimately show ?case by (simp add: idx_frame_trans)
qed

lemma idx_frame_xr: "idx_frame s (snd (xr s))"
  by (simp add: xr_def Let_def idx_frame_prng)

lemma idx_frame_rand_lvl_loop: "idx_frame s (snd (rand_lvl_loop h s))"
proof (induction h s rule: rand_lvl_loop.induct)
  case (1 h s)
  show ?case
  proof (cases "h < SKLVL \<and> fst (xr s) AND 1 \<noteq> 0")
    case True
    then have "idx_frame (snd (xr s)) (snd (rand_lvl_loop (h + 1) (snd (xr s))))"
      using "1.IH" by simp
    with idx_frame_xr [of s] have "idx_frame s (snd (rand_lvl_loop (h + 1) (snd (xr s))))"
      by (rule idx_frame_trans)
    with True show ?thesis by (subst rand_lvl_loop.simps) simp
  next
    case False
    then show ?thesis
      by (subst rand_lvl_loop.simps) (auto simp: idx_frame_refl idx_frame_xr)
  qed
qed

lemma idx_frame_insert_at: "idx_frame s (insert_at upd n i s)"
  by (auto simp: insert_at_def Let_def intro: idx_frame_trans idx_frame_set_snext idx_frame_set_head)

lemma idx_frame_remove_at: "idx_frame s (remove_at upd n i s)"
  by (auto simp: remove_at_def Let_def intro: idx_frame_refl idx_frame_set_snext idx_frame_set_head)

lemma idx_frame_sidx_insert: "sidx_insert n s = Some s' \<Longrightarrow> idx_frame s s'"
proof -
  assume a: "sidx_insert n s = Some s'"
  obtain L s0 where r: "rand_lvl s = (L, s0)" by (cases "rand_lvl s")
  have f0: "idx_frame s s0" using idx_frame_rand_lvl_loop [of s 1] r by (simp add: rand_lvl_def)
  have f1: "idx_frame s0 (set_lvl n L s0)" by (rule idx_frame_set_lvl)
  from a r obtain cur upd where
    s': "s' = fold (\<lambda>i. set_snext n i 0) [L..<SKLVL] (fold (insert_at upd n) [0..<L] (set_lvl n L s0))"
    by (auto simp: sidx_insert_def Let_def split: option.splits)
  have f2: "idx_frame (set_lvl n L s0) (fold (insert_at upd n) [0..<L] (set_lvl n L s0))"
    by (rule idx_frame_fold) (rule idx_frame_insert_at)
  have f3: "idx_frame (fold (insert_at upd n) [0..<L] (set_lvl n L s0)) s'"
    unfolding s' by (rule idx_frame_fold) (rule idx_frame_set_snext)
  from f0 f1 f2 f3 show ?thesis by (blast intro: idx_frame_trans)
qed

lemma idx_frame_sidx_remove_exact: "sidx_remove_exact n s = Some s' \<Longrightarrow> idx_frame s s'"
  by (auto simp: sidx_remove_exact_def split: option.splits
      intro!: idx_frame_fold idx_frame_remove_at)

subsection \<open>The strategy tag\<close>

lemma tag_setters [simp]:
  "current_strategy (set_sz a w s) = current_strategy s"
  "current_strategy (set_anext a v s) = current_strategy s"
  "current_strategy (set_aprev a v s) = current_strategy s"
  "current_strategy (set_snext a i v s) = current_strategy s"
  "current_strategy (set_lvl a l s) = current_strategy s"
  "current_strategy (set_magic a g s) = current_strategy s"
  "current_strategy (set_is_free a f s) = current_strategy s"
  "current_strategy (set_head i v s) = current_strategy s"
  by (simp_all add: setters)

lemma tag_fold: "(\<And>x t. current_strategy (f x t) = current_strategy t) \<Longrightarrow>
  current_strategy (fold f xs s) = current_strategy s"
  by (induction xs arbitrary: s) simp_all

lemma tag_alu [simp]: "current_strategy (alu n s) = current_strategy s"
  by (simp add: alu_def Let_def)

lemma tag_alb [simp]: "current_strategy (alb p n b s) = current_strategy s"
  by (simp add: alb_def Let_def)

lemma tag_new_free_blk [simp]: "current_strategy (new_free_blk a n s) = current_strategy s"
  by (simp add: new_free_blk_def tag_fold)

lemma tag_smt: "smt blk need s = (r, s') \<Longrightarrow> current_strategy s' = current_strategy s"
  by (auto simp: smt_def Let_def split: if_splits)

lemma tag_sidx_insert: "sidx_insert n s = Some s' \<Longrightarrow> current_strategy s' = current_strategy s"
  by (rule idx_frame_fields(8)) (rule idx_frame_sidx_insert)

lemma tag_sidx_remove_exact:
  "sidx_remove_exact n s = Some s' \<Longrightarrow> current_strategy s' = current_strategy s"
  by (rule idx_frame_fields(8)) (rule idx_frame_sidx_remove_exact)

lemma tag_first_fit:
  assumes "size0 \<noteq> 0" "malloc_first_fit mm size0 s = Returns (p, s')"
  shows "current_strategy s' = ALLOC_STRATEGY_FIRST"
  using assms unfolding malloc_first_fit_def Let_def
  by (auto split: if_splits outcome.splits option.splits prod.splits
      dest!: tag_smt tag_sidx_insert tag_sidx_remove_exact)

lemma tag_next_fit:
  assumes "size0 \<noteq> 0" "malloc_next_fit mm size0 s = Returns (p, s')"
  shows "current_strategy s' = ALLOC_STRATEGY_NEXT"
  using assms unfolding malloc_next_fit_def Let_def
  by (auto split: if_splits outcome.splits option.splits prod.splits
      dest!: tag_smt tag_sidx_insert tag_sidx_remove_exact)

lemma tag_best_fit:
  assumes "size0 \<noteq> 0" "malloc_best_fit mm size0 s = Returns (p, s')"
  shows "current_strategy s' = ALLOC_STRATEGY_BEST"
  using assms unfolding malloc_best_fit_def Let_def
  by (auto split: if_splits outcome.splits option.splits prod.splits
      dest!: tag_smt tag_sidx_insert tag_sidx_remove_exact)

lemma tag_worst_fit:
  assumes "size0 \<noteq> 0" "malloc_worst_fit mm size0 s = Returns (p, s')"
  shows "current_strategy s' = ALLOC_STRATEGY_WORST"
  using assms unfolding malloc_worst_fit_def Let_def
  by (auto split: if_splits outcome.splits option.splits prod.splits
      dest!: tag_smt tag_sidx_insert tag_sidx_remove_exact)

lemma tag_bud_setters [simp]:
  "current_strategy (set_bud_sz a w s) = current_strategy s"
  "current_strategy (set_bud_next a v s) = current_strategy s"
  "current_strategy (set_bud_prev a v s) = current_strategy s"
  "current_strategy (set_bud_magic a g s) = current_strategy s"
  "current_strategy (set_bud_order a k s) = current_strategy s"
  "current_strategy (set_bud_is_free a f s) = current_strategy s"
  "current_strategy (set_bfl i v s) = current_strategy s"
  by (simp_all add: bud_setters)

lemma tag_bgb_halve [simp]: "current_strategy (bgb_halve k b s) = current_strategy s"
  by (simp add: bgb_halve_def Let_def)

lemma tag_bgb_split: "current_strategy (bgb_split ord k b s) = current_strategy s"
proof (induction ord k b s rule: bgb_split.induct)
  case (1 ord k b s)
  show ?case
  proof (cases "k > ord")
    case True
    with "1.IH" show ?thesis by (subst bgb_split.simps) simp
  next
    case False
    then show ?thesis by (subst bgb_split.simps) simp
  qed
qed

lemma tag_bgb: "bgb ord s = (b, s') \<Longrightarrow> current_strategy s' = current_strategy s"
  by (auto simp: bgb_def Let_def tag_bgb_split split: if_splits)

lemma tag_buddy_alloc:
  assumes "size0 \<noteq> 0" "malloc_buddy_alloc mm size0 s = Returns (p, s')"
  shows "current_strategy s' = ALLOC_STRATEGY_BUDDY"
  using assms unfolding malloc_buddy_alloc_def Let_def
  by (auto split: if_splits outcome.splits option.splits prod.splits dest!: tag_bgb)

text \<open>
  C7, as the code has it: the tag is written after the zero-size check (and after the
  bootstrap), before the selection. A call with a non-zero size that returns, with a
  handle or with \<^verbatim>\<open>NULL\<close> after a failed selection, leaves the tag of its strategy; a
  call with size 0 returns \<^verbatim>\<open>NULL\<close> and changes nothing, the tag included.
\<close>

theorem alloc_sets_tag:
  "alloc S mm 0 s = Returns (0, s) \<and>
   (size0 \<noteq> 0 \<longrightarrow> alloc S mm size0 s = Returns (p, s') \<longrightarrow> current_strategy s' = tag_of S)"
proof
  show "alloc S mm 0 s = Returns (0, s)"
    by (cases S)
       (simp_all add: malloc_first_fit_def malloc_next_fit_def malloc_best_fit_def
          malloc_worst_fit_def malloc_buddy_alloc_def)
  show "size0 \<noteq> 0 \<longrightarrow> alloc S mm size0 s = Returns (p, s') \<longrightarrow> current_strategy s' = tag_of S"
    by (cases S)
       (auto dest: tag_first_fit tag_next_fit tag_best_fit tag_worst_fit tag_buddy_alloc)
qed

lemma buddy_order_5032: "buddy_order 5032 1 0 = 13"
  by (simp add: buddy_order.simps MAXORD_def)

lemma upt_13: "[0..<13] = [0, 1, 2, 3, 4, 5, 6, 7, 8, 9, 10, 11, 12 :: nat]"
  by (simp add: upt_rec)

lemma buddy_5000_fresh:
  "\<exists>s'. malloc_buddy_alloc (Some 0x20000) 5000 init_state = Returns (0, s')"
  by (simp add: malloc_buddy_alloc_def b_init_def init_state_def Let_def BUDHDR_def
      buddy_order_5032 MAXORD_def)

theorem alloc_sets_tag_witness:
  "(5000 :: size_t) \<noteq> 0 \<and>
   (\<exists>s'. alloc Buddy (Some 0x20000) 5000 init_state = Returns (0, s') \<and>
      current_strategy s' = tag_of Buddy)"
proof -
  from buddy_5000_fresh obtain s' where
    r: "alloc Buddy (Some 0x20000) 5000 init_state = Returns (0, s')" by auto
  from alloc_sets_tag [of Buddy "Some 0x20000" init_state 5000 0 s'] r
  have "current_strategy s' = tag_of Buddy" by simp
  with r show ?thesis by auto
qed

text \<open>
  C7 as stated fails for size 0: the first call of a process, \<^verbatim>\<open>malloc_first_fit(0)\<close>,
  returns with the tag still 0, which is not \<^verbatim>\<open>ALLOC_STRATEGY_FIRST\<close>.
\<close>

theorem alloc_zero_keeps_tag_counterexample:
  "alloc First None 0 init_state = Returns (0, init_state) \<and>
   current_strategy init_state \<noteq> tag_of First"
  by (simp add: malloc_first_fit_def init_state_def ALLOC_STRATEGY_FIRST_def)

subsection \<open>The split\<close>

lemma clear_snext_other: "b \<noteq> a \<Longrightarrow> mem (fold (\<lambda>i. set_snext a i 0) xs t) b = mem t b"
  by (induction xs arbitrary: t) (simp_all add: set_snext_def)

lemma clear_snext_fields:
  "sz (mem (fold (\<lambda>i. set_snext a i 0) xs t) b) = sz (mem t b)"
  "anext (mem (fold (\<lambda>i. set_snext a i 0) xs t) b) = anext (mem t b)"
  "aprev (mem (fold (\<lambda>i. set_snext a i 0) xs t) b) = aprev (mem t b)"
  "lvl (mem (fold (\<lambda>i. set_snext a i 0) xs t) b) = lvl (mem t b)"
  "magic (mem (fold (\<lambda>i. set_snext a i 0) xs t) b) = magic (mem t b)"
  "is_free (mem (fold (\<lambda>i. set_snext a i 0) xs t) b) = is_free (mem t b)"
  by (induction xs arbitrary: t; simp add: set_snext_def)+

lemma clear_snext_at:
  "snext (mem (fold (\<lambda>i. set_snext a i 0) xs t) a) i =
     (if i \<in> set xs then 0 else snext (mem t a) i)"
  by (induction xs arbitrary: t) (simp_all add: set_snext_def)

lemma new_free_blk_other: "b \<noteq> a \<Longrightarrow> mem (new_free_blk a n s) b = mem s b"
  by (simp add: new_free_blk_def set_sz_def set_anext_def set_aprev_def
      set_lvl_def set_magic_def set_is_free_def clear_snext_other)

lemma new_free_blk_at:
  "sz (mem (new_free_blk a n s) a) = n"
  "anext (mem (new_free_blk a n s) a) = 0"
  "aprev (mem (new_free_blk a n s) a) = 0"
  "lvl (mem (new_free_blk a n s) a) = 1"
  "magic (mem (new_free_blk a n s) a) = MAGIC_F"
  "is_free (mem (new_free_blk a n s) a) = 1"
  "i < SKLVL \<Longrightarrow> snext (mem (new_free_blk a n s) a) i = 0"
  by (simp_all add: new_free_blk_def set_sz_def set_anext_def set_aprev_def
      set_lvl_def set_magic_def set_is_free_def clear_snext_fields clear_snext_at)

lemma unat_plus_64:
  fixes a b :: "64 word"
  shows "unat a + unat b < 2 ^ 64 \<Longrightarrow> unat (a + b) = unat a + unat b"
  using unat_add_lem [of a b] by simp

lemma smt_needed:
  fixes need b :: "64 word"
  assumes "need \<le> b" "b \<le> 4096"
  shows "unat (88 + need) = 88 + unat need"
    and "unat (88 + need + 88 + 32) = unat need + 208"
    and "unat (88 + b) = 88 + unat b"
proof -
  from assms have b: "unat b \<le> 4096" and n: "unat need \<le> 4096"
    by (simp_all add: word_le_nat_alt)
  show 1: "unat (88 + need) = 88 + unat need"
    using n by (simp add: unat_plus_64)
  have 2: "unat (88 + need + 88) = 176 + unat need"
    using n 1 by (simp add: unat_plus_64)
  show "unat (88 + need + 88 + 32) = unat need + 208"
    using n 2 by (simp add: unat_plus_64)
  show "unat (88 + b) = 88 + unat b"
    using b by (simp add: unat_plus_64)
qed

lemma smt_cond:
  fixes need b :: "64 word"
  assumes "need \<le> b" "b \<le> 4096"
  shows "(88 + need + 88 + 32 \<le> 88 + b) = (88 + unat need + 88 + 32 \<le> 88 + unat b)"
  using smt_needed [OF assms] by (simp add: word_le_nat_alt)

lemma smt_rest:
  fixes need b :: "64 word"
  assumes "need \<le> b" "b \<le> 4096" "88 + unat need + 88 + 32 \<le> 88 + unat b"
  shows "unat (88 + b - (88 + need) - 88) = 88 + unat b - (88 + unat need) - 88"
proof -
  have 1: "unat (b - need) = unat b - unat need"
    by (rule unat_sub) (rule assms(1))
  have le2: "(88 :: 64 word) \<le> b - need"
    using 1 assms(3) by (simp add: word_le_nat_alt)
  have "unat (b - need - 88) = unat b - unat need - 88"
    using 1 by (simp add: unat_sub [OF le2])
  moreover have "88 + b - (88 + need) - 88 = b - need - 88" by simp
  ultimately show ?thesis by simp
qed

lemma smt_addr:
  fixes need b blk :: "64 word"
  assumes "need \<le> b" "b \<le> 4096" "unat blk + 88 + unat b < 2 ^ 64"
  shows "unat (blk + (88 + need)) = unat blk + (88 + unat need)"
proof -
  from assms have "unat need \<le> unat b" by (simp add: word_le_nat_alt)
  with assms(3) smt_needed(1) [OF assms(1,2)] show ?thesis
    by (simp add: unat_plus_64)
qed

text \<open>
  C3: the split of a block \<open>blk\<close> of the arena for a request \<open>need\<close> that it holds
  (\<open>need \<le> sz\<close>, what each of the four callers tests before it calls \<^verbatim>\<open>smt\<close>). The
  block is no larger than the arena and ends inside the address space, so none of the
  sums of \<^verbatim>\<open>smt\<close> wraps around and they are the sums of natural numbers of the claim.
\<close>

theorem smt_split:
  assumes "smt blk need s = (rem, s')"
    and "need \<le> sz (mem s blk)"
    and "sz (mem s blk) \<le> HEAP_SIZE"
    and "unat blk + unat HDRSZ + unat (sz (mem s blk)) < 2 ^ 64"
  shows "unat MIN_TAIL = 32 \<and>
    (rem \<noteq> 0) =
      (unat HDRSZ + unat (sz (mem s blk)) \<ge> (unat HDRSZ + unat need) + unat HDRSZ + unat MIN_TAIL) \<and>
    (rem \<noteq> 0 \<longrightarrow>
       unat rem = unat blk + (unat HDRSZ + unat need) \<and>
       unat (sz (mem s' rem)) =
         (unat HDRSZ + unat (sz (mem s blk))) - (unat HDRSZ + unat need) - unat HDRSZ \<and>
       magic (mem s' rem) = MAGIC_F \<and> is_free (mem s' rem) = 1 \<and> lvl (mem s' rem) = 1 \<and>
       (\<forall>i < SKLVL. snext (mem s' rem) i = 0) \<and>
       anext (mem s' rem) = 0 \<and> aprev (mem s' rem) = 0 \<and>
       sz (mem s' blk) = need) \<and>
    (rem = 0 \<longrightarrow> s' = s)"
proof -
  let ?b = "sz (mem s blk)"
  have le: "need \<le> ?b" "?b \<le> 4096"
    using assms(2,3) by (simp_all add: HEAP_SIZE_def)
  have addr: "unat (blk + (88 + need)) = unat blk + (88 + unat need)"
    using assms(4) by (intro smt_addr [OF le]) (simp add: HDRSZ_def)
  have nz: "blk + (88 + need) \<noteq> 0"
  proof
    assume "blk + (88 + need) = 0"
    then have "unat (blk + (88 + need)) = 0" by simp
    with addr show False by simp
  qed
  have ne: "blk + (88 + need) \<noteq> blk"
  proof
    assume "blk + (88 + need) = blk"
    then have "unat (blk + (88 + need)) = unat blk" by simp
    with addr show False by simp
  qed
  show ?thesis
  proof (cases "88 + need + 88 + 32 \<le> 88 + ?b")
    case True
    then have c: "88 + unat need + 88 + 32 \<le> 88 + unat ?b"
      by (rule iffD1 [OF smt_cond [OF le]])
    from True assms(1) have rem: "rem = blk + (88 + need)" and
      s': "s' = set_sz blk need (new_free_blk rem (88 + ?b - (88 + need) - 88) s)"
      by (auto simp: smt_def Let_def HDRSZ_def MIN_TAIL_def)
    show ?thesis
      using c nz ne addr smt_rest [OF le c]
      by (simp add: s' set_sz_def new_free_blk_at rem [symmetric] HDRSZ_def MIN_TAIL_def)
  next
    case False
    then have c: "\<not> 88 + unat need + 88 + 32 \<le> 88 + unat ?b"
      using smt_cond [OF le] by blast
    from False assms(1) have "rem = 0" "s' = s"
      by (auto simp: smt_def Let_def HDRSZ_def MIN_TAIL_def)
    with c show ?thesis by (simp add: HDRSZ_def MIN_TAIL_def)
  qed
qed


text \<open>
  Two runs on a block of payload 4008 at address 65536: a request of 100 bytes splits it,
  a request of 3900 bytes (a tail of 108 bytes, header included) does not.
\<close>

theorem smt_split_witness:
  "(100 :: size_t) \<le> 4008 \<and> (4008 :: size_t) \<le> HEAP_SIZE \<and>
   unat (fst (smt 0x10000 100 (set_sz 0x10000 4008 init_state))) = 0x100BC \<and>
   unat (sz (mem (snd (smt 0x10000 100 (set_sz 0x10000 4008 init_state)))
     (fst (smt 0x10000 100 (set_sz 0x10000 4008 init_state))))) = 3820 \<and>
   sz (mem (snd (smt 0x10000 100 (set_sz 0x10000 4008 init_state))) 0x10000) = 100 \<and>
   smt 0x10000 3900 (set_sz 0x10000 4008 init_state) = (0, set_sz 0x10000 4008 init_state)"
proof -
  let ?s = "set_sz 0x10000 4008 init_state"
  have sz: "sz (mem ?s 0x10000) = 4008" by (simp add: set_sz_def)
  have h: "(100 :: size_t) \<le> 4008" "(3900 :: size_t) \<le> 4008" "(4008 :: size_t) \<le> HEAP_SIZE"
    "unat (0x10000 :: addr) + unat HDRSZ + unat (4008 :: size_t) < 2 ^ 64"
    by (simp_all add: HEAP_SIZE_def HDRSZ_def)
  have a: "unat (fst (smt 0x10000 100 ?s)) = 0x100BC \<and>
      unat (sz (mem (snd (smt 0x10000 100 ?s)) (fst (smt 0x10000 100 ?s)))) = 3820 \<and>
      sz (mem (snd (smt 0x10000 100 ?s)) 0x10000) = 100"
    using smt_split [of "0x10000" 100 ?s "fst (smt 0x10000 100 ?s)" "snd (smt 0x10000 100 ?s)"] h
    by (simp add: sz HDRSZ_def MIN_TAIL_def)
  have b: "smt 0x10000 3900 ?s = (0, ?s)"
    using smt_split [of "0x10000" 3900 ?s "fst (smt 0x10000 3900 ?s)" "snd (smt 0x10000 3900 ?s)"] h
    by (simp add: sz HDRSZ_def MIN_TAIL_def prod_eq_iff)
  from a b h show ?thesis by simp
qed

subsection \<open>The buddy arena after its bootstrap\<close>

lemma b_init_fresh:
  assumes "\<not> b_inited s"
  shows "\<exists>s0. b_init (Some p) s = Returns s0 \<and> b_inited s0 \<and> b_arena s0 = p \<and>
    bfl s0 12 = p \<and> (\<forall>k < 13. k \<noteq> 12 \<longrightarrow> bfl s0 k = 0) \<and>
    bmem s0 p = \<lparr>bud_sz = 4096, bud_next = 0, bud_prev = 0, bud_magic = MAGIC_F,
          bud_order = 12, bud_is_free = 1\<rparr>"
  using assms
  by (simp add: b_init_def Let_def upt_13 bud_setters MAXORD_def) arith

lemma buddy_order_large:
  fixes need :: "64 word"
  assumes "4096 < need"
  shows "buddy_order need 1 0 = 13"
proof -
  have n: "4096 < unat need" using assms by (simp add: word_less_nat_alt)
  have lt: "x < need" if "unat x \<le> 4096" for x :: "64 word"
    using that n by (simp add: word_less_nat_alt)
  show ?thesis
    by (simp add: buddy_order.simps [of need] MAXORD_def lt)
qed

lemma b_init_returns:
  "b_inited s \<or> mm \<noteq> None \<Longrightarrow> \<exists>s0. (if \<not> b_inited s then b_init mm s else Returns s) = Returns s0"
  by (auto simp: b_init_def Let_def)

lemma buddy_refuses:
  assumes "b_inited s \<or> mm \<noteq> None"
    and "unat R + unat BUDHDR < 2 ^ 64" and "unat R > 2 ^ (MAXORD - 1) - unat BUDHDR"
  shows "\<exists>s1. malloc_buddy_alloc mm R s = Returns (0, s1)"
proof -
  have "unat (R + BUDHDR) = unat R + unat BUDHDR"
    using assms(2) unat_add_lem [of R BUDHDR] by simp
  with assms(3) have "4096 < R + BUDHDR"
    by (simp add: word_less_nat_alt BUDHDR_def MAXORD_def)
  then have o: "buddy_order (R + BUDHDR) 1 0 = 13" by (rule buddy_order_large)
  from b_init_returns [OF assms(1)] obtain s0 where
    "(if \<not> b_inited s then b_init mm s else Returns s) = Returns s0" ..
  then show ?thesis
    by (cases "R = 0") (simp_all add: malloc_buddy_alloc_def Let_def o MAXORD_def)
qed


text \<open>
  C6, as the code has it. The block of the bootstrap has order \<open>MAXORD - 1 = 12\<close> and
  size \<open>2 ^ 12 = 4096\<close>, which is the whole arena \<open>HEAP_SIZE\<close>, not half of it. A request
  \<open>R\<close> above \<open>2 ^ (MAXORD - 1) - BUDHDR\<close> is refused with \<^verbatim>\<open>NULL\<close>, in every state,
  provided that \<open>R + BUDHDR\<close> does not wrap around in \<^verbatim>\<open>size_t\<close>.
\<close>

theorem buddy_bootstrap_and_refusal:
  "(\<not> b_inited s \<longrightarrow>
      (\<exists>s0. b_init (Some p) s = Returns s0 \<and>
         bfl s0 (MAXORD - 1) = p \<and> (\<forall>k < MAXORD. k \<noteq> MAXORD - 1 \<longrightarrow> bfl s0 k = 0) \<and>
         unat (bud_order (bmem s0 p)) = MAXORD - 1 \<and>
         unat (bud_sz (bmem s0 p)) = 2 ^ (MAXORD - 1) \<and> bud_sz (bmem s0 p) = HEAP_SIZE \<and>
         bud_is_free (bmem s0 p) = 1 \<and> bud_magic (bmem s0 p) = MAGIC_F \<and>
         bud_next (bmem s0 p) = 0 \<and> bud_prev (bmem s0 p) = 0)) \<and>
   ((b_inited t \<or> mm \<noteq> None) \<and> unat R + unat BUDHDR < 2 ^ 64 \<and>
      unat R > 2 ^ (MAXORD - 1) - unat BUDHDR \<longrightarrow>
      (\<exists>t1. malloc_buddy_alloc mm R t = Returns (0, t1)))"
proof (intro conjI impI)
  assume "\<not> b_inited s"
  from b_init_fresh [OF this, of p] obtain s0 where
    "b_init (Some p) s = Returns s0" "bfl s0 12 = p" "\<forall>k < 13. k \<noteq> 12 \<longrightarrow> bfl s0 k = 0"
    "bmem s0 p = \<lparr>bud_sz = 4096, bud_next = 0, bud_prev = 0, bud_magic = MAGIC_F,
          bud_order = 12, bud_is_free = 1\<rparr>"
    by blast
  then show "\<exists>s0. b_init (Some p) s = Returns s0 \<and>
         bfl s0 (MAXORD - 1) = p \<and> (\<forall>k < MAXORD. k \<noteq> MAXORD - 1 \<longrightarrow> bfl s0 k = 0) \<and>
         unat (bud_order (bmem s0 p)) = MAXORD - 1 \<and>
         unat (bud_sz (bmem s0 p)) = 2 ^ (MAXORD - 1) \<and> bud_sz (bmem s0 p) = HEAP_SIZE \<and>
         bud_is_free (bmem s0 p) = 1 \<and> bud_magic (bmem s0 p) = MAGIC_F \<and>
         bud_next (bmem s0 p) = 0 \<and> bud_prev (bmem s0 p) = 0"
    by (simp add: MAXORD_def HEAP_SIZE_def)
next
  assume "(b_inited t \<or> mm \<noteq> None) \<and> unat R + unat BUDHDR < 2 ^ 64 \<and>
      unat R > 2 ^ (MAXORD - 1) - unat BUDHDR"
  then show "\<exists>t1. malloc_buddy_alloc mm R t = Returns (0, t1)"
    by (intro buddy_refuses) simp_all
qed

theorem buddy_bootstrap_and_refusal_witness:
  "\<not> b_inited init_state \<and>
   (\<exists>s0. b_init (Some 0x20000) init_state = Returns s0 \<and> bfl s0 12 = 0x20000 \<and>
      bud_sz (bmem s0 0x20000) = 4096) \<and>
   unat (4065 :: size_t) + unat BUDHDR < 2 ^ 64 \<and>
   unat (4065 :: size_t) > 2 ^ (MAXORD - 1) - unat BUDHDR \<and>
   (\<exists>t1. malloc_buddy_alloc (Some 0x20000) 4065 init_state = Returns (0, t1))"
  using buddy_bootstrap_and_refusal
    [where s = init_state and p = "0x20000" and t = init_state and mm = "Some 0x20000"
       and R = 4065]
  by (auto simp: init_state_def MAXORD_def BUDHDR_def HEAP_SIZE_def)

text \<open>
  C6 as stated fails twice on a fresh process whose buddy arena is mapped at 131072: the
  block of the bootstrap has 4096 bytes, which is not \<open>HEAP_SIZE / 2\<close>; and the request
  of \<open>2 ^ 64 - 1\<close> bytes, far above \<open>2 ^ 12 - BUDHDR\<close>, is not refused, because
  \<^verbatim>\<open>size + BUDHDR\<close> wraps around to 31 and a block of order 5 is handed out.
\<close>

lemma buddy_order_wrap: "buddy_order 18446744073709551647 1 0 = 5"
proof -
  have "(18446744073709551647 :: 64 word) = 31" by simp
  then show ?thesis by (simp add: buddy_order.simps MAXORD_def)
qed

lemma bgb_find_fresh:
  "bgb_find ((\<lambda>k. 0)(0 := 0, Suc 0 := 0, 2 := 0, 3 := 0, 4 := 0, 5 := 0, 6 := 0,
     7 := 0, 8 := 0, 9 := 0, 10 := 0, 11 := 0, 12 := 0x20000)) 5 = 12"
  by (simp add: bgb_find.simps MAXORD_def)

theorem buddy_counterexample:
  "(\<exists>s0. b_init (Some 0x20000) init_state = Returns s0 \<and>
      unat (bud_sz (bmem s0 0x20000)) = 4096 \<and>
      unat (bud_sz (bmem s0 0x20000)) \<noteq> unat HEAP_SIZE div 2) \<and>
   (2 :: nat) ^ (MAXORD - 1) \<noteq> unat HEAP_SIZE div 2 \<and>
   unat (0xFFFFFFFFFFFFFFFF :: size_t) > 2 ^ (MAXORD - 1) - unat BUDHDR \<and>
   (\<exists>s1. malloc_buddy_alloc (Some 0x20000) 0xFFFFFFFFFFFFFFFF init_state
      = Returns (0x20020, s1))"
proof -
  have 1: "\<exists>s0. b_init (Some 0x20000) init_state = Returns s0 \<and>
      unat (bud_sz (bmem s0 0x20000)) = 4096 \<and>
      unat (bud_sz (bmem s0 0x20000)) \<noteq> unat HEAP_SIZE div 2"
    using b_init_fresh [of init_state "0x20000"]
    by (auto simp: init_state_def HEAP_SIZE_def)
  have 2: "\<exists>s1. malloc_buddy_alloc (Some 0x20000) 0xFFFFFFFFFFFFFFFF init_state
      = Returns (0x20020, s1)"
    by (simp add: malloc_buddy_alloc_def b_init_def init_state_def Let_def upt_13 bud_setters
        MAXORD_def BUDHDR_def buddy_order_wrap bgb_def bgb_find_fresh bgb_split.simps
        bgb_halve_def zero_bud_def
        cong: let_weak_cong option.case_cong_weak outcome.case_cong_weak prod.case_cong_weak)
  from 1 2 show ?thesis by (simp add: MAXORD_def HEAP_SIZE_def BUDHDR_def)
qed

subsection \<open>Free of a pointer that is not a live handle\<close>

lemma magic_frame_refl [simp]: "magic_frame s s"
  by (simp add: magic_frame_def)

lemma magic_frame_trans: "magic_frame s t \<Longrightarrow> magic_frame t u \<Longrightarrow> magic_frame s u"
  by (simp add: magic_frame_def)

lemma magic_frame_idx: "idx_frame s s' \<Longrightarrow> magic_frame s s'"
  by (simp add: magic_frame_def idx_frame_fields)

lemma magic_frame_setters [simp]:
  "magic_frame s (set_sz a w s)"
  "magic_frame s (set_anext a v s)"
  "magic_frame s (set_aprev a v s)"
  "magic_frame s (set_snext a i v s)"
  "magic_frame s (set_lvl a l s)"
  "magic_frame s (set_is_free a f s)"
  "magic_frame s (set_head i v s)"
  "magic_frame s (s\<lparr>rover := r\<rparr>)"
  "magic_frame s (s\<lparr>alist_head := h\<rparr>)"
  "magic_frame s (set_bud_sz a w s)"
  "magic_frame s (set_bud_next a v s)"
  "magic_frame s (set_bud_prev a v s)"
  "magic_frame s (set_bud_order a k s)"
  "magic_frame s (set_bud_is_free a f' s)"
  "magic_frame s (set_bfl j v s)"
  by (simp_all add: magic_frame_def setters bud_setters)

lemma magic_frame_alb: "magic_frame s (alb p n b s)"
  by (simp add: magic_frame_def alb_def Let_def setters)

lemma magic_frame_cola_prev: "magic_frame s (cola_prev p b s)"
  by (simp add: magic_frame_def cola_prev_def Let_def setters)

lemma magic_frame_cola_next: "magic_frame s (cola_next b n s)"
  by (simp add: magic_frame_def cola_next_def Let_def setters)

lemma magic_frame_sidx_insert: "sidx_insert n s = Some s' \<Longrightarrow> magic_frame s s'"
  by (rule magic_frame_idx) (rule idx_frame_sidx_insert)

lemma magic_frame_sidx_remove_exact: "sidx_remove_exact n s = Some s' \<Longrightarrow> magic_frame s s'"
  by (rule magic_frame_idx) (rule idx_frame_sidx_remove_exact)

lemma magic_frame_cola:
  assumes "cola b s = Some (b', s')"
  shows "magic_frame s s'"
proof -
  let ?p = "aprev (mem s b)" and ?n = "anext (mem s b)"
  let ?mp = "?p \<noteq> 0 \<and> adjacent (mem s) ?p b" and ?mn = "?n \<noteq> 0 \<and> adjacent (mem s) b ?n"
  have fin: "magic_frame t (if alist_head t = 0 then t\<lparr>rover := 0\<rparr> else t)" for t
    by simp
  show ?thesis
  proof (cases "\<not> ?mp \<and> \<not> ?mn")
    case True
    with assms have "s' = (if alist_head s = 0 then s\<lparr>rover := 0\<rparr> else s)"
      by (auto simp: cola_def Let_def)
    with fin [of s] show ?thesis by simp
  next
    case False
    with assms obtain s1 s2 s3 s6 where
      s1: "(if ?mp then sidx_remove_exact ?p s else Some s) = Some s1" and
      s2: "sidx_remove_exact b s1 = Some s2" and
      s3: "(if ?mn then sidx_remove_exact ?n s2 else Some s2) = Some s3" and
      s6: "sidx_insert (if ?mp then ?p else b)
             (if ?mn then cola_next (if ?mp then ?p else b) ?n
                (if ?mp then cola_prev ?p b s3 else s3)
              else (if ?mp then cola_prev ?p b s3 else s3)) = Some s6" and
      s': "s' = (if alist_head s6 = 0 then s6\<lparr>rover := 0\<rparr> else s6)"
      unfolding cola_def Let_def
      by (simp split: option.splits if_splits prod.splits)
    have f1: "magic_frame s s1"
      using s1 by (auto split: if_splits dest: magic_frame_sidx_remove_exact)
    have f2: "magic_frame s1 s2" using s2 by (rule magic_frame_sidx_remove_exact)
    have f3: "magic_frame s2 s3"
      using s3 by (auto split: if_splits dest: magic_frame_sidx_remove_exact)
    let ?s4 = "if ?mp then cola_prev ?p b s3 else s3"
    let ?s5 = "if ?mn then cola_next (if ?mp then ?p else b) ?n ?s4 else ?s4"
    have f4: "magic_frame s3 ?s4" by (simp add: magic_frame_cola_prev)
    have f5: "magic_frame ?s4 ?s5" by (simp add: magic_frame_cola_next)
    have f6: "magic_frame ?s5 s6" using s6 by (rule magic_frame_sidx_insert)
    have f7: "magic_frame s6 s'" unfolding s' by (rule fin)
    from f1 f2 f3 f4 f5 f6 f7 show ?thesis by (blast intro: magic_frame_trans)
  qed
qed


lemma magic_frame_bfl_push: "magic_frame s (bfl_push b s)"
  by (simp add: magic_frame_def bfl_push_def Let_def bud_setters)

lemma magic_frame_bfl_unlink: "magic_frame s (bfl_unlink m s)"
  by (simp add: magic_frame_def bfl_unlink_def Let_def bud_setters)

lemma magic_frame_bfm_merge: "magic_frame s (snd (bfm_merge m b s))"
proof -
  have "magic_frame s (bfl_unlink b (bfl_unlink m s))"
    by (rule magic_frame_trans [OF magic_frame_bfl_unlink magic_frame_bfl_unlink])
  moreover have "magic_frame t
      (bfl_push c (set_bud_prev c 0 (set_bud_next c 0
         (set_bud_sz c w (set_bud_order c k t)))))" for t c w k
    by (simp add: magic_frame_def bfl_push_def Let_def bud_setters)
  ultimately show ?thesis
    unfolding bfm_merge_def Let_def snd_conv
    by (blast intro: magic_frame_trans)
qed

lemma magic_frame_bfm_loop:
  assumes "bfm_loop b s = Some s'"
  shows "magic_frame s s'"
proof (rule bfm_loop.raw_induct [where P = "\<lambda>b s s'. magic_frame s s'", OF _ assms])
  fix loop :: "addr \<Rightarrow> state \<Rightarrow> state option" and b s s'
  assume ih: "\<And>b s s'. loop b s = Some s' \<Longrightarrow> magic_frame s s'"
  assume body: "(if unat (bud_order (bmem s b)) < MAXORD - 1
      then (let m = b_buddy b s
            in if m = 0 \<or> bud_is_free (bmem s m) = 0
                  \<or> bud_order (bmem s m) \<noteq> bud_order (bmem s b)
               then Some s
               else loop (fst (bfm_merge m b s)) (snd (bfm_merge m b s)))
      else Some s) = Some s'"
  show "magic_frame s s'"
  proof (cases "unat (bud_order (bmem s b)) < MAXORD - 1 \<and>
      \<not> (b_buddy b s = 0 \<or> bud_is_free (bmem s (b_buddy b s)) = 0 \<or>
         bud_order (bmem s (b_buddy b s)) \<noteq> bud_order (bmem s b))")
    case True
    with body have "loop (fst (bfm_merge (b_buddy b s) b s)) (snd (bfm_merge (b_buddy b s) b s))
        = Some s'"
      by (simp add: Let_def)
    then have "magic_frame (snd (bfm_merge (b_buddy b s) b s)) s'" by (rule ih)
    with magic_frame_bfm_merge show ?thesis by (rule magic_frame_trans)
  next
    case False
    with body have "s' = s" by (auto simp: Let_def split: if_splits)
    then show ?thesis by simp
  qed
qed

lemma bfm_stamps:
  assumes "bfm b s = Some s'"
  shows "b_inited s' = b_inited s \<and> b_arena s' = b_arena s \<and> bud_magic (bmem s' b) = MAGIC_F \<and>
    mapped s' = mapped s"
proof -
  let ?s0 = "set_bud_magic b MAGIC_F (set_bud_is_free b 1 s)"
  have "magic_frame ?s0 (bfl_push b ?s0)" by (rule magic_frame_bfl_push)
  moreover have "magic_frame (bfl_push b ?s0) s'"
    using assms unfolding bfm_def by (rule magic_frame_bfm_loop)
  ultimately have "magic_frame ?s0 s'" by (rule magic_frame_trans)
  then show ?thesis by (simp add: magic_frame_def bud_setters)
qed

lemma my_free_main_stamps:
  assumes "heap0_inited s" and "magic (mem s blk) = MAGIC_A"
    and link: "(if alist_head s = 0
          then Some (set_aprev blk 0 (set_anext blk 0 (s\<lparr>alist_head := blk\<rparr>)))
          else (case free_walk (mem s) blk 0 (alist_head s) of
                  None \<Rightarrow> None
                | Some (prv, cur) \<Rightarrow> Some (alb prv cur blk s))) = Some s1"
    and ins: "sidx_insert blk (set_lvl blk 1 (fold (\<lambda>i. set_snext blk i 0) [0..<SKLVL]
          (set_magic blk MAGIC_F (set_is_free blk 1 s1)))) = Some s4"
    and col: "cola blk s4 = Some (b', s5)"
  shows "b_inited s5 = b_inited s \<and> b_arena s5 = b_arena s \<and> heap0_inited s5 \<and>
    magic (mem s5 blk) = MAGIC_F \<and> mapped s5 = mapped s"
proof -
  have f1: "magic_frame s s1"
    using link
    by (auto simp: magic_frame_alb split: if_splits option.splits)
       (simp add: magic_frame_def setters)
  let ?s2 = "set_magic blk MAGIC_F (set_is_free blk 1 s1)"
  let ?s3 = "set_lvl blk 1 (fold (\<lambda>i. set_snext blk i 0) [0..<SKLVL] ?s2)"
  have "idx_frame ?s2 ?s3"
    by (rule idx_frame_trans [OF idx_frame_fold idx_frame_set_lvl]) (rule idx_frame_set_snext)
  then have f3: "magic_frame ?s2 ?s3" by (rule magic_frame_idx)
  have f4: "magic_frame ?s3 s4" using ins by (rule magic_frame_sidx_insert)
  have f5: "magic_frame s4 s5" using col by (rule magic_frame_cola)
  from f3 f4 f5 have "magic_frame ?s2 s5" by (blast intro: magic_frame_trans)
  with f1 assms(1) show ?thesis by (simp add: magic_frame_def setters)
qed

lemma MAGIC_F_not_A: "MAGIC_F \<noteq> MAGIC_A"
  by (simp add: MAGIC_F_def MAGIC_A_def)

subsection \<open>Running the allocator on concrete calls\<close>

text \<open>
  The equations below let the simplifier run the model: tuple patterns are projections,
  function updates on numerals are kept in order, and the generator state is kept
  below \<open>2 ^ 32\<close>.
\<close>

lemma upt_6: "[0..<6] = [0, 1, 2, 3, 4, 5 :: nat]"
  by (simp add: upt_rec)

lemma fun_upd_sort:
  fixes a b :: "'a::linorder"
  shows "b < a \<Longrightarrow> (f(a := x))(b := y) = (f(b := y))(a := x)"
  by (auto simp: fun_eq_iff)

lemma xr_norm:
  "xr s =
     (let x0 = prng_state s;
          x1 = x0 XOR push_bit 13 x0;
          x2 = x1 XOR drop_bit 17 x1;
          x3 = x2 XOR push_bit 5 x2;
          x4 = of_nat (unat (if x3 \<noteq> 0 then x3 else 0xA5A5A5A5))
      in (x4, s\<lparr>prng_state := x4\<rparr>))"
  by (simp add: xr_def Let_def)

lemmas run_patterns =
  malloc_first_fit_def malloc_next_fit_def malloc_best_fit_def malloc_worst_fit_def my_free_def
  heap_bootstrap_def sidx_insert_def sidx_ge_def sidx_max_def sidx_remove_exact_def cola_def

lemmas run_defs = run_patterns [unfolded case_prod_unfold]
  ff_scan.simps nf_scan.simps free_walk.simps init_state_def
  sk_search_def sk_walk.simps
  SKLVL_def upt_6 upt_conv_Cons rand_lvl_def rand_lvl_loop.simps xr_norm
  setters new_free_blk_def smt_def alu_def alb_def insert_at_def remove_at_def
  cmp_size_addr_def adjacent_def cola_prev_def cola_next_def
  HEAP_SIZE_def HDRSZ_def MIN_TAIL_def MAGIC_F_def MAGIC_A_def
  ALLOC_STRATEGY_FIRST_def ALLOC_STRATEGY_NEXT_def ALLOC_STRATEGY_BEST_def
  ALLOC_STRATEGY_WORST_def zero_blk_def Let_def fun_upd_sort numeral_2_eq_2 [symmetric]
  map_pages_def mapped_range_def MAGIC_OFF_def BUD_MAGIC_OFF_def

subsection \<open>Allocate twice, free both\<close>

text \<open>
  C9: a fresh process whose main arena is mapped at 65536 runs
  \<^verbatim>\<open>A = malloc_first_fit(128); B = malloc_first_fit(64); my_free(A); my_free(B)\<close>. Then
  the address list is the one block at the start of the arena, with payload
  \<open>HEAP_SIZE - HDRSZ\<close> and free; level 0 of the size index is this block and the levels
  above are empty; the rover points at it, as after the bootstrap.
\<close>

theorem first_fit_twice_free_both:
  "\<exists>s. run (Some 0x10000) None [Malloc First 128, Malloc First 64, Free 0, Free 1] [] init_state
        = Returns ([0x10058, 0x10130], s) \<and>
     achain (mem s) (alist_head s) [0x10000] \<and>
     sz (mem s 0x10000) = HEAP_SIZE - HDRSZ \<and>
     magic (mem s 0x10000) = MAGIC_F \<and> is_free (mem s 0x10000) = 1 \<and>
     aprev (mem s 0x10000) = 0 \<and>
     schain (mem s) 0 (sidx_head s 0) [0x10000] \<and>
     schain (mem s) 1 (sidx_head s 1) [] \<and> schain (mem s) 2 (sidx_head s 2) [] \<and>
     schain (mem s) 3 (sidx_head s 3) [] \<and> schain (mem s) 4 (sidx_head s 4) [] \<and>
     schain (mem s) 5 (sidx_head s 5) [] \<and>
     rover s = 0x10000 \<and> heap0 s = 0x10000 \<and> heap0_inited s"
  by (simp add: run_defs
      cong: let_weak_cong option.case_cong_weak outcome.case_cong_weak)

lemmas run_congs = let_weak_cong option.case_cong_weak outcome.case_cong_weak

subsection \<open>The rover after best-fit and worst-fit\<close>

text \<open>
  C1 fails on the code. The first call of a process, \<^verbatim>\<open>malloc_best_fit(100)\<close> (and the
  same with \<^verbatim>\<open>malloc_worst_fit\<close>), with the main arena mapped at 65536: the bootstrap
  sets the rover to the block at 65536, the call hands this block out and links the
  remainder at 65724, and the rover is left as it was. After the call the address list
  is the remainder alone, and the rover is not null and points at the allocated block.
\<close>

theorem best_fit_leaves_rover_dangling:
  "(\<exists>s. run (Some 0x10000) None [Malloc Best 100] [] init_state = Returns ([0x10058], s) \<and>
      achain (mem s) (alist_head s) [0x100BC] \<and> rover s = 0x10000 \<and>
      rover s \<noteq> 0 \<and> rover s \<notin> set [0x100BC] \<and> magic (mem s (rover s)) = MAGIC_A) \<and>
   (\<exists>s. run (Some 0x10000) None [Malloc Worst 100] [] init_state = Returns ([0x10058], s) \<and>
      achain (mem s) (alist_head s) [0x100BC] \<and> rover s = 0x10000 \<and>
      rover s \<noteq> 0 \<and> rover s \<notin> set [0x100BC] \<and> magic (mem s (rover s)) = MAGIC_A)"
  by (simp add: run_defs cong: run_congs)

subsection \<open>The address list and the size index after best-fit and next-fit\<close>

text \<open>
  C2 fails on the code, through the rover that C1 is about. After
  \<^verbatim>\<open>malloc_best_fit(100)\<close> the call \<^verbatim>\<open>malloc_next_fit(50)\<close> starts at the rover, the
  allocated block at 65536, finds its size 100 large enough and hands it out a second
  time; unlinking it, with its null \<^verbatim>\<open>aprev\<close>, sets \<^verbatim>\<open>alist_head\<close> to its null \<^verbatim>\<open>anext\<close>.
  After the two calls the address list is empty, and level 0 of the size index still
  holds the free remainder at 65724: the two are not the same set of blocks.
\<close>

theorem best_then_next_fit_loses_address_list:
  "\<exists>s. run (Some 0x10000) None [Malloc Best 100, Malloc Next 50] [] init_state
        = Returns ([0x10058, 0x10058], s) \<and>
     achain (mem s) (alist_head s) [] \<and>
     schain (mem s) 0 (sidx_head s 0) [0x100BC] \<and>
     magic (mem s 0x100BC) = MAGIC_F \<and> is_free (mem s 0x100BC) = 1 \<and>
     set [] \<noteq> set [0x100BC :: addr]"
  by (simp add: run_defs cong: run_congs)

text \<open>
  The scenario of C5: \<^verbatim>\<open>malloc_next_fit(64)\<close> twice, free of the first handle, then
  \<^verbatim>\<open>malloc_next_fit(64)\<close> again. Before the third allocation the address list is the
  freed block at 65536, which would hold the request, and the remainder at 65840, where
  the rover points; the third handle is the payload of the block at the rover.
\<close>

lemma next_fit_scenario:
  "\<exists>s3 s4. run (Some 0x10000) None [Malloc Next 64, Malloc Next 64, Free 0] [] init_state
        = Returns ([0x10058, 0x100F0], s3) \<and>
     achain (mem s3) (alist_head s3) [0x10000, 0x10130] \<and> sz (mem s3 0x10000) = 64 \<and>
     rover s3 = 0x10130 \<and>
     malloc_next_fit None 64 s3 = Returns (0x10130 + HDRSZ, s4) \<and>
     0x10130 + HDRSZ \<noteq> (0x10058 :: addr)"
  by (simp add: run_defs cong: run_congs)

subsection \<open>Free of null, of a bad pointer, and twice\<close>

text \<open>
  Where \<^verbatim>\<open>my_free\<close> does what C8 says: for \<^verbatim>\<open>NULL\<close>; for a pointer whose recovered magic
  lies in the address space and is not \<^verbatim>\<open>MAGIC_A\<close>; and for a second \<^verbatim>\<open>my_free(p)\<close> after
  a first one that has returned.
\<close>

lemma my_free_null: "my_free 0 s = Returns s"
  by (simp add: my_free_def)

lemma my_free_bad_magic:
  assumes "recovered_readable ptr s" "recovered_magic ptr s \<noteq> MAGIC_A"
  shows "my_free ptr s = Returns s"
proof (cases "b_inited s \<and> ptr \<ge> b_arena s \<and> ptr < b_arena s + HEAP_SIZE")
  case True
  with assms show ?thesis
    by (simp add: my_free_def recovered_magic_def recovered_readable_def Let_def)
next
  case False
  then have nb: "(b_inited s \<and> ptr \<ge> b_arena s \<and> ptr < b_arena s + HEAP_SIZE) = False"
    by simp
  from assms show ?thesis
    unfolding my_free_def recovered_magic_def recovered_readable_def Let_def nb
    by simp
qed

lemma my_free_twice:
  assumes "my_free ptr s = Returns s'"
  shows "my_free ptr s' = Returns s'"
proof (cases "ptr = 0")
  case True
  then show ?thesis by (simp add: my_free_def)
next
  case nz: False
  show ?thesis
  proof (cases "b_inited s \<and> ptr \<ge> b_arena s \<and> ptr < b_arena s + HEAP_SIZE")
    case True
    with assms nz have rd: "mapped_range s (ptr - BUDHDR + BUD_MAGIC_OFF) 4"
      by (auto simp: my_free_def Let_def split: if_splits)
    show ?thesis
    proof (cases "bud_magic (bmem s (ptr - BUDHDR)) \<noteq> MAGIC_A")
      case True
      with assms \<open>b_inited s \<and> ptr \<ge> b_arena s \<and> ptr < b_arena s + HEAP_SIZE\<close> nz rd
      have "s' = s" by (simp add: my_free_def Let_def)
      with assms show ?thesis by simp
    next
      case False
      with assms True nz rd have "bfm (ptr - BUDHDR) s = Some s'"
        by (simp add: my_free_def Let_def split: option.splits if_splits)
      from bfm_stamps [OF this] have
        "b_inited s' = b_inited s \<and> b_arena s' = b_arena s \<and>
         bud_magic (bmem s' (ptr - BUDHDR)) = MAGIC_F \<and> mapped s' = mapped s" .
      with True nz rd show ?thesis
        by (simp add: my_free_def Let_def MAGIC_F_not_A mapped_range_def)
    qed
  next
    case nb: False
    show ?thesis
    proof (cases "heap0_inited s")
      case False
      with assms nb nz have "s' = s" by (auto simp: my_free_def Let_def)
      with assms show ?thesis by simp
    next
      case i: True
      have nb': "(b_inited s \<and> ptr \<ge> b_arena s \<and> ptr < b_arena s + HEAP_SIZE) = False"
        using nb by simp
      from assms nz i have rd: "mapped_range s (ptr - HDRSZ + MAGIC_OFF) 4"
        unfolding my_free_def Let_def nb' by (auto split: if_splits)
      show ?thesis
      proof (cases "magic (mem s (ptr - HDRSZ)) \<noteq> MAGIC_A")
        case True
        with assms nz i rd have "s' = s"
          unfolding my_free_def Let_def nb' by (auto split: if_splits)
        with assms show ?thesis by simp
      next
        case False
        then have m: "magic (mem s (ptr - HDRSZ)) = MAGIC_A" by simp
        have m': "(magic (mem s (ptr - HDRSZ)) \<noteq> MAGIC_A) = False" using m by simp
        have rd': "(\<not> mapped_range s (ptr - HDRSZ + MAGIC_OFF) 4) = False" using rd by simp
        from assms obtain s1 s4 b' where
          "(if alist_head s = 0
            then Some (set_aprev (ptr - HDRSZ) 0 (set_anext (ptr - HDRSZ) 0
                   (s\<lparr>alist_head := ptr - HDRSZ\<rparr>)))
            else (case free_walk (mem s) (ptr - HDRSZ) 0 (alist_head s) of
                    None \<Rightarrow> None
                  | Some (prv, cur) \<Rightarrow> Some (alb prv cur (ptr - HDRSZ) s))) = Some s1"
          "sidx_insert (ptr - HDRSZ) (set_lvl (ptr - HDRSZ) 1
             (fold (\<lambda>i. set_snext (ptr - HDRSZ) i 0) [0..<SKLVL]
               (set_magic (ptr - HDRSZ) MAGIC_F (set_is_free (ptr - HDRSZ) 1 s1)))) = Some s4"
          "cola (ptr - HDRSZ) s4 = Some (b', s')"
          unfolding my_free_def Let_def if_not_P [OF nz] nb' m' rd' if_False if_P [OF i] not_not
          by (simp add: i split: option.splits prod.splits if_splits)
        from my_free_main_stamps [OF i m this] have
          "b_inited s' = b_inited s \<and> b_arena s' = b_arena s \<and> heap0_inited s' \<and>
           magic (mem s' (ptr - HDRSZ)) = MAGIC_F \<and> mapped s' = mapped s" .
        with nb nz rd show ?thesis
          by (auto simp: my_free_def Let_def MAGIC_F_not_A mapped_range_def)
      qed
    qed
  qed
qed


text \<open>
  C8 fails on the code for a bad pointer whose header is not mapped. After
  \<^verbatim>\<open>malloc_first_fit(100)\<close> in a fresh process, \<^verbatim>\<open>my_free((void*)16)\<close> finds the buddy arena
  not bootstrapped and the main arena bootstrapped, takes \<^verbatim>\<open>blk = 16 - HDRSZ\<close> and reads
  \<^verbatim>\<open>blk->magic\<close> at address 4, outside the arena: the process ends with \<^verbatim>\<open>SIGSEGV\<close>
  instead of returning with the state unchanged. The buddy path compares the pointer
  with the bounds of its arena first; the main path has no such test.
\<close>

theorem my_free_bad_pointer_faults:
  "\<exists>s. run (Some 0x10000) None [Malloc First 100] [] init_state = Returns ([0x10058], s) \<and>
     \<not> b_inited s \<and> heap0_inited s \<and> 16 - HDRSZ + MAGIC_OFF = (4 :: addr) \<and>
     \<not> mapped s 4 \<and> \<not> recovered_readable 16 s \<and> my_free 16 s = Faults"
  by (simp add: run_defs recovered_readable_def cong: run_congs)

end
